theory Spec2Isabelle
  imports Main "HOL-Library.Word" "HOL-Library.Signed_Division"
begin

unbundle bit_operations_syntax

section \<open>Machine integers, byte strings, errors\<close>

text \<open>
  The builder of \<^verbatim>\<open>coins/bitcoin/inscribe.go\<close> works on Go's \<^verbatim>\<open>int64\<close> (amounts, fees,
  weights), \<^verbatim>\<open>uint32\<close> (output indices, sequence numbers) and \<^verbatim>\<open>[]byte\<close>. They are words
  here, so that every addition and multiplication wraps as it does in Go. Go's \<^verbatim>\<open>int\<close> has
  64 bits on the targets of the SDK; a length that enters fee arithmetic is \<open>len\<close>, a word.
  Slice indices and loop counters are natural numbers.
\<close>

type_synonym byte = "8 word"
type_synonym bytes = "8 word list"
type_synonym int64 = "64 word"
type_synonym int32 = "32 word"
type_synonym uint32 = "32 word"

definition len :: "'a list \<Rightarrow> int64" where
  "len xs = of_nat (length xs)"

text \<open>Go's \<^verbatim>\<open>/\<close> on \<^verbatim>\<open>int64\<close> truncates towards zero.\<close>

definition go_div :: "int64 \<Rightarrow> int64 \<Rightarrow> int64" where
  "go_div a b = word_of_int (sint a sdiv sint b)"

text \<open>Go's \<^verbatim>\<open>[]byte(s)\<close> of a string.\<close>

definition bytes_of_string :: "string \<Rightarrow> bytes" where
  "bytes_of_string s = map of_char s"

text \<open>
  An \<^verbatim>\<open>error\<close> value is its message (\<^verbatim>\<open>Inscribe\<close> compares messages); a run-time panic
  (index out of range, nil dereference) is an outcome of its own.
\<close>

datatype error = Error string | Panic

text \<open>The \<^verbatim>\<open>%d\<close> verb of \<^verbatim>\<open>fmt.Sprintf\<close>.\<close>

fun string_of_nat :: "nat \<Rightarrow> string" where
  "string_of_nat n =
     (if n < 10 then [''0123456789'' ! n]
      else string_of_nat (n div 10) @ [''0123456789'' ! (n mod 10)])"

declare string_of_nat.simps [simp del]

definition string_of_int64 :: "int64 \<Rightarrow> string" where
  "string_of_int64 w =
     (if w <s 0 then ''-'' @ string_of_nat (nat (- sint w)) else string_of_nat (nat (sint w)))"

section \<open>Constants of the builder\<close>

definition DefaultTxVersion :: int32 where
  "DefaultTxVersion = 2"

definition DefaultSequenceNum :: uint32 where
  "DefaultSequenceNum = 0xfffffffd"

definition DefaultRevealOutValue :: int64 where
  "DefaultRevealOutValue = 546"

definition DefaultMinChangeValue :: int64 where
  "DefaultMinChangeValue = 546"

definition MaxStandardTxWeight :: int64 where
  "MaxStandardTxWeight = 4000000 div 10"

definition WitnessScaleFactor :: int64 where
  "WitnessScaleFactor = 4"

definition OrdPrefix :: string where
  "OrdPrefix = ''ord''"

section \<open>Transactions (package wire of btcd)\<close>

text \<open>
  The transaction types are those of btcd's \<^verbatim>\<open>wire\<close> package, which the builder imports; the
  size functions below follow that package. A hash (\<^verbatim>\<open>chainhash.Hash\<close>) is a byte array.
\<close>

datatype Hash = Hash32 bytes

record OutPoint =
  Hash :: Hash
  Index :: uint32

record TxIn =
  PreviousOutPoint :: OutPoint
  SignatureScript :: bytes
  Witness :: "bytes list"
  Sequence :: uint32

record TxOut =
  Value :: int64
  PkScript :: bytes

record MsgTx =
  Version :: int32
  TxIn :: "TxIn list"
  TxOut :: "TxOut list"
  LockTime :: uint32

text \<open>The zero hash of \<^verbatim>\<open>wire.OutPoint{Index: ...}\<close>.\<close>

definition zeroHash :: Hash where
  "zeroHash = Hash32 (replicate 32 0)"

definition NewMsgTx :: "int32 \<Rightarrow> MsgTx" where
  "NewMsgTx version = \<lparr>Version = version, TxIn = [], TxOut = [], LockTime = 0\<rparr>"

text \<open>\<^verbatim>\<open>wire.NewTxIn(prevOut, nil, nil)\<close>, whose sequence number is then overwritten.\<close>

definition NewTxIn :: "OutPoint \<Rightarrow> bytes \<Rightarrow> bytes list \<Rightarrow> TxIn" where
  "NewTxIn prevOut signatureScript witness =
     \<lparr>PreviousOutPoint = prevOut, SignatureScript = signatureScript, Witness = witness,
      Sequence = 0xffffffff\<rparr>"

definition NewTxOut :: "int64 \<Rightarrow> bytes \<Rightarrow> TxOut" where
  "NewTxOut v pkScript = \<lparr>Value = v, PkScript = pkScript\<rparr>"

definition AddTxIn :: "TxIn \<Rightarrow> MsgTx \<Rightarrow> MsgTx" where
  "AddTxIn ti tx = tx\<lparr>TxIn := TxIn tx @ [ti]\<rparr>"

definition AddTxOut :: "TxOut \<Rightarrow> MsgTx \<Rightarrow> MsgTx" where
  "AddTxOut out tx = tx\<lparr>TxOut := TxOut tx @ [out]\<rparr>"

definition VarIntSerializeSize :: "64 word \<Rightarrow> int64" where
  "VarIntSerializeSize val =
     (if val < 0xfd then 1
      else if val \<le> 0xffff then 3
      else if val \<le> 0xffffffff then 5
      else 9)"

definition TxIn_SerializeSize :: "TxIn \<Rightarrow> int64" where
  "TxIn_SerializeSize t =
     40 + VarIntSerializeSize (len (SignatureScript t)) + len (SignatureScript t)"

definition TxOut_SerializeSize :: "TxOut \<Rightarrow> int64" where
  "TxOut_SerializeSize t = 8 + VarIntSerializeSize (len (PkScript t)) + len (PkScript t)"

definition TxWitness_SerializeSize :: "bytes list \<Rightarrow> int64" where
  "TxWitness_SerializeSize t =
     VarIntSerializeSize (len t)
       + sum_list (map (\<lambda>witItem. VarIntSerializeSize (len witItem) + len witItem) t)"

definition HasWitness :: "MsgTx \<Rightarrow> bool" where
  "HasWitness msg = list_ex (\<lambda>txIn. length (Witness txIn) \<noteq> 0) (TxIn msg)"

definition baseSize :: "MsgTx \<Rightarrow> int64" where
  "baseSize msg =
     8 + VarIntSerializeSize (len (TxIn msg)) + VarIntSerializeSize (len (TxOut msg))
       + sum_list (map TxIn_SerializeSize (TxIn msg))
       + sum_list (map TxOut_SerializeSize (TxOut msg))"

definition SerializeSize :: "MsgTx \<Rightarrow> int64" where
  "SerializeSize msg =
     (if HasWitness msg
      then baseSize msg + 2 + sum_list (map (\<lambda>txin. TxWitness_SerializeSize (Witness txin)) (TxIn msg))
      else baseSize msg)"

definition SerializeSizeStripped :: "MsgTx \<Rightarrow> int64" where
  "SerializeSizeStripped msg = baseSize msg"

section \<open>Weight and virtual size\<close>

definition GetTransactionWeight :: "MsgTx \<Rightarrow> int64" where
  "GetTransactionWeight msgTx =
     (let baseSize = SerializeSizeStripped msgTx;
          totalSize = SerializeSize msgTx
      in (baseSize * (WitnessScaleFactor - 1)) + totalSize)"

definition GetTxVirtualSize :: "MsgTx \<Rightarrow> int64" where
  "GetTxVirtualSize tx =
     go_div (GetTransactionWeight tx + (WitnessScaleFactor - 1)) WitnessScaleFactor"

section \<open>Script builder (package txscript of btcd)\<close>

definition OP_0 :: byte where "OP_0 = 0x00"
definition OP_FALSE :: byte where "OP_FALSE = 0x00"
definition OP_DATA_1 :: byte where "OP_DATA_1 = 0x01"
definition OP_PUSHDATA1 :: byte where "OP_PUSHDATA1 = 0x4c"
definition OP_PUSHDATA2 :: byte where "OP_PUSHDATA2 = 0x4d"
definition OP_PUSHDATA4 :: byte where "OP_PUSHDATA4 = 0x4e"
definition OP_1NEGATE :: byte where "OP_1NEGATE = 0x4f"
definition OP_1 :: byte where "OP_1 = 0x51"
definition OP_IF :: byte where "OP_IF = 0x63"
definition OP_ENDIF :: byte where "OP_ENDIF = 0x68"
definition OP_CHECKSIG :: byte where "OP_CHECKSIG = 0xac"

definition MaxScriptSize :: nat where
  "MaxScriptSize = 10000"

definition MaxScriptElementSize :: nat where
  "MaxScriptElementSize = 520"

record ScriptBuilder =
  sb_script :: bytes
  sb_err :: "error option"

definition NewScriptBuilder :: ScriptBuilder where
  "NewScriptBuilder = \<lparr>sb_script = [], sb_err = None\<rparr>"

definition AddOp :: "byte \<Rightarrow> ScriptBuilder \<Rightarrow> ScriptBuilder" where
  "AddOp opcode b =
     (if sb_err b \<noteq> None then b
      else if length (sb_script b) + 1 > MaxScriptSize
      then b\<lparr>sb_err := Some (Error (''adding an opcode would exceed the maximum allowed canonical script length of ''
                 @ string_of_nat MaxScriptSize))\<rparr>
      else b\<lparr>sb_script := sb_script b @ [opcode]\<rparr>)"

definition canonicalDataSize :: "bytes \<Rightarrow> nat" where
  "canonicalDataSize data =
     (let dataLen = length data in
      if dataLen = 0 then 1
      else if dataLen = 1 \<and> hd data \<le> 16 then 1
      else if dataLen = 1 \<and> hd data = 0x81 then 1
      else if dataLen < unat OP_PUSHDATA1 then 1 + dataLen
      else if dataLen \<le> 0xff then 2 + dataLen
      else if dataLen \<le> 0xffff then 3 + dataLen
      else 5 + dataLen)"

text \<open>
  The push itself, without any check: the smallest opcode that can carry the data, then the
  data. \<open>hd data\<close> is only read where the length is 1.
\<close>

definition pushData :: "bytes \<Rightarrow> bytes" where
  "pushData data =
     (let dataLen = length data in
      if dataLen = 0 \<or> dataLen = 1 \<and> hd data = 0 then [OP_0]
      else if dataLen = 1 \<and> hd data \<le> 16 then [(OP_1 - 1) + hd data]
      else if dataLen = 1 \<and> hd data = 0x81 then [OP_1NEGATE]
      else (if dataLen < unat OP_PUSHDATA1 then [(OP_DATA_1 - 1) + of_nat dataLen]
            else if dataLen \<le> 0xff then [OP_PUSHDATA1, of_nat dataLen]
            else if dataLen \<le> 0xffff
            then [OP_PUSHDATA2, of_nat dataLen, of_nat (dataLen div 2 ^ 8)]
            else [OP_PUSHDATA4, of_nat dataLen, of_nat (dataLen div 2 ^ 8),
                  of_nat (dataLen div 2 ^ 16), of_nat (dataLen div 2 ^ 24)])
           @ data)"

definition addData :: "bytes \<Rightarrow> ScriptBuilder \<Rightarrow> ScriptBuilder" where
  "addData data b = b\<lparr>sb_script := sb_script b @ pushData data\<rparr>"

definition AddFullData :: "bytes \<Rightarrow> ScriptBuilder \<Rightarrow> ScriptBuilder" where
  "AddFullData data b = (if sb_err b \<noteq> None then b else addData data b)"

definition AddData :: "bytes \<Rightarrow> ScriptBuilder \<Rightarrow> ScriptBuilder" where
  "AddData data b =
     (if sb_err b \<noteq> None then b
      else if length (sb_script b) + canonicalDataSize data > MaxScriptSize
      then b\<lparr>sb_err := Some (Error (''adding '' @ string_of_nat (canonicalDataSize data)
                 @ '' bytes of data would exceed the maximum allowed canonical script length of ''
                 @ string_of_nat MaxScriptSize))\<rparr>
      else if length data > MaxScriptElementSize
      then b\<lparr>sb_err := Some (Error (''adding a data element of '' @ string_of_nat (length data)
                 @ '' bytes would exceed the maximum allowed script element size of ''
                 @ string_of_nat MaxScriptElementSize))\<rparr>
      else addData data b)"

definition Script :: "ScriptBuilder \<Rightarrow> error + bytes" where
  "Script b = (case sb_err b of Some e \<Rightarrow> Inl e | None \<Rightarrow> Inr (sb_script b))"

section \<open>Request and builder state\<close>

text \<open>
  \<^verbatim>\<open>InscriptionData\<close>, \<^verbatim>\<open>PrevOutput\<close> and \<^verbatim>\<open>InscriptionRequest\<close> as the source declares them.
  The elements of \<^verbatim>\<open>CommitTxPrevOutputList\<close> are pointers in Go; they are taken to be non-nil.
\<close>

record InscriptionData =
  ContentType :: string
  Body :: bytes
  RevealAddr :: string

record PrevOutput =
  TxId :: string
  VOut :: uint32
  Amount :: int64
  Address :: string
  PrivateKey :: string
  PublicKey :: string

record InscriptionRequest =
  CommitTxPrevOutputList :: "PrevOutput list"
  CommitFeeRate :: int64
  RevealFeeRate :: int64
  InscriptionDataList :: "InscriptionData list"
  RevealOutValue :: int64
  ChangeAddress :: string
  MinChangeValue :: int64

text \<open>Keys, signatures, network parameters and addresses are values of the libraries.\<close>

datatype PrivKey = PrivKey bytes
datatype PubKey = PubKey bytes
datatype Signature = Signature bytes
datatype ModNScalar = ModNScalar bytes
datatype Params = Params string
datatype AddressTaproot = AddressTaproot string bytes

text \<open>
  \<^verbatim>\<open>inscriptionTxCtxData\<close>. \<^verbatim>\<open>RevealTxPrevOutput\<close> is a pointer that stays nil until the
  reveal pre-sizer sets it.
\<close>

record inscriptionTxCtxData =
  ctx_PrivateKey :: PrivKey
  InscriptionScript :: bytes
  CommitTxAddress :: string
  CommitTxAddressPkScript :: bytes
  ControlBlockWitness :: bytes
  RevealTxPrevOutput :: "TxOut option"

text \<open>
  \<^verbatim>\<open>txscript.MultiPrevOutFetcher\<close> is a Go map from outpoints to outputs: an association list
  whose newest entry is first, read with \<open>map_of\<close>.
\<close>

type_synonym MultiPrevOutFetcher = "(OutPoint \<times> TxOut) list"

definition NewMultiPrevOutFetcher :: MultiPrevOutFetcher where
  "NewMultiPrevOutFetcher = []"

definition AddPrevOut :: "OutPoint \<Rightarrow> TxOut \<Rightarrow> MultiPrevOutFetcher \<Rightarrow> MultiPrevOutFetcher" where
  "AddPrevOut op txOut m = (op, txOut) # m"

definition FetchPrevOutput :: "MultiPrevOutFetcher \<Rightarrow> OutPoint \<Rightarrow> TxOut option" where
  "FetchPrevOutput m op = map_of m op"

text \<open>
  \<^verbatim>\<open>InscriptionBuilder\<close>. The slots that Go allocates as nil pointers and fills later
  (\<^verbatim>\<open>InscriptionTxCtxDataList\<close>, \<^verbatim>\<open>RevealTx\<close>, \<^verbatim>\<open>CommitTx\<close>) are options.
\<close>

record InscriptionBuilder =
  Network :: Params
  CommitTxPrevOutputFetcher :: MultiPrevOutFetcher
  CommitTxPrivateKeyList :: "PrivKey list"
  InscriptionTxCtxDataList :: "inscriptionTxCtxData option list"
  RevealTxPrevOutputFetcher :: MultiPrevOutFetcher
  builder_CommitTxPrevOutputList :: "PrevOutput list"
  RevealTx :: "MsgTx option list"
  CommitTx :: "MsgTx option"
  MustCommitTxFee :: int64
  MustRevealTxFees :: "int64 list"
  CommitAddrs :: "string list"

text \<open>
  The responses \<^verbatim>\<open>InscribeTxs\<close> and \<^verbatim>\<open>InscribeForMPCRes\<close>; their fields carry the prefix
  \<open>res_\<close>, the source's names being those of the builder's fields and of local variables.
\<close>

record InscribeTxs =
  res_CommitTx :: string
  res_RevealTxs :: "string list"
  res_CommitTxFee :: int64
  res_RevealTxFees :: "int64 list"
  res_CommitAddrs :: "string list"

text \<open>\<^verbatim>\<open>InscribeForMPCRes\<close>; a nil \<^verbatim>\<open>SigHashList\<close> (JSON null) is \<open>None\<close>.\<close>

record InscribeForMPCRes = InscribeTxs +
  res_SigHashList :: "string list option"

section \<open>The libraries the builder calls\<close>

text \<open>
  Key decoding, elliptic-curve arithmetic, hashing, signing, address encoding and transaction
  (de)serialization are not part of the builder. They are the fields of \<open>env\<close>, under the
  names the source calls them by; every function of the builder takes the environment as
  its first argument. \<^verbatim>\<open>AddrToPkScript\<close>, \<^verbatim>\<open>PayToPubKeyHashScript\<close> and
  \<^verbatim>\<open>PayToWitnessPubKeyHashScript\<close> belong to the SDK's own package but to other files.
  \<^verbatim>\<open>NewPrivateKey\<close> is the key that \<^verbatim>\<open>btcec.NewPrivateKey()\<close> draws.
\<close>

record TapLeaf =
  LeafVersion :: byte
  tl_Script :: bytes

datatype TxSigHashes = NewTxSigHashes MsgTx MultiPrevOutFetcher

type_synonym SigHashType = "32 word"

definition SigHashDefault :: SigHashType where "SigHashDefault = 0x00"
definition SigHashAll :: SigHashType where "SigHashAll = 0x01"

record lib =
  DecodeWIF :: "string \<Rightarrow> error + PrivKey"
  PubKeyOf :: "PrivKey \<Rightarrow> PubKey"
  SerializePubKey :: "PubKey \<Rightarrow> bytes"
  SerializeCompressed :: "PubKey \<Rightarrow> bytes"
  NewPrivateKey :: "error + PrivKey"
  TapHash :: "TapLeaf \<Rightarrow> Hash"
  ComputeTaprootOutputKey :: "PubKey \<Rightarrow> bytes \<Rightarrow> PubKey"
  NewAddressTaproot :: "bytes \<Rightarrow> Params \<Rightarrow> error + AddressTaproot"
  EncodeAddress :: "AddressTaproot \<Rightarrow> string"
  PayToAddrScript :: "AddressTaproot \<Rightarrow> error + bytes"
  AddrToPkScript :: "string \<Rightarrow> Params \<Rightarrow> error + bytes"
  PayToPubKeyHashScript :: "bytes \<Rightarrow> error + bytes"
  PayToWitnessPubKeyHashScript :: "bytes \<Rightarrow> error + bytes"
  Hash160 :: "bytes \<Rightarrow> bytes"
  IsPayToTaproot :: "bytes \<Rightarrow> bool"
  IsPayToPubKeyHash :: "bytes \<Rightarrow> bool"
  IsPayToScriptHash :: "bytes \<Rightarrow> bool"
  NewHashFromStr :: "string \<Rightarrow> error + Hash"
  TxHash :: "MsgTx \<Rightarrow> Hash"

record env = lib +
  CalcTapscriptSignaturehash ::
    "TxSigHashes \<Rightarrow> SigHashType \<Rightarrow> MsgTx \<Rightarrow> nat \<Rightarrow> MultiPrevOutFetcher \<Rightarrow> TapLeaf \<Rightarrow> error + bytes"
  schnorr_Sign :: "PrivKey \<Rightarrow> bytes \<Rightarrow> error + Signature"
  Serialize :: "Signature \<Rightarrow> bytes"
  TaprootWitnessSignature ::
    "MsgTx \<Rightarrow> TxSigHashes \<Rightarrow> nat \<Rightarrow> int64 \<Rightarrow> bytes \<Rightarrow> SigHashType \<Rightarrow> PrivKey \<Rightarrow> error + bytes list"
  SignatureScript_of ::
    "MsgTx \<Rightarrow> nat \<Rightarrow> bytes \<Rightarrow> SigHashType \<Rightarrow> PrivKey \<Rightarrow> bool \<Rightarrow> error + bytes"
  WitnessSignature ::
    "MsgTx \<Rightarrow> TxSigHashes \<Rightarrow> nat \<Rightarrow> int64 \<Rightarrow> bytes \<Rightarrow> SigHashType \<Rightarrow> PrivKey \<Rightarrow> bool \<Rightarrow> error + bytes list"
  RawTxInTapscriptSignature ::
    "MsgTx \<Rightarrow> TxSigHashes \<Rightarrow> nat \<Rightarrow> int64 \<Rightarrow> bytes \<Rightarrow> TapLeaf \<Rightarrow> SigHashType \<Rightarrow> PrivKey \<Rightarrow> error + bytes"
  CalcTaprootSignatureHash ::
    "TxSigHashes \<Rightarrow> SigHashType \<Rightarrow> MsgTx \<Rightarrow> nat \<Rightarrow> MultiPrevOutFetcher \<Rightarrow> error + bytes"
  CalcSignatureHash :: "bytes \<Rightarrow> SigHashType \<Rightarrow> MsgTx \<Rightarrow> nat \<Rightarrow> error + bytes"
  CalcWitnessSigHash ::
    "bytes \<Rightarrow> TxSigHashes \<Rightarrow> SigHashType \<Rightarrow> MsgTx \<Rightarrow> nat \<Rightarrow> int64 \<Rightarrow> error + bytes"
  tx_Serialize :: "MsgTx \<Rightarrow> error + bytes"
  tx_Deserialize :: "bytes \<Rightarrow> error + MsgTx"
  hex_EncodeToString :: "bytes \<Rightarrow> string"
  hex_DecodeString :: "string \<Rightarrow> error + bytes"
  SetByteSlice :: "bytes \<Rightarrow> ModNScalar"
  ecdsa_Serialize :: "ModNScalar \<Rightarrow> ModNScalar \<Rightarrow> bytes"

section \<open>Script envelope builder\<close>

text \<open>
  The taproot proof and control block of btcd's \<^verbatim>\<open>txscript\<close>: \<^verbatim>\<open>NewBaseTapLeaf\<close>,
  \<^verbatim>\<open>TapscriptProof.ToControlBlock\<close> and \<^verbatim>\<open>ControlBlock.ToBytes\<close>. The hash of the leaf and
  the tweak of the key are the environment's.
\<close>

definition BaseLeafVersion :: byte where
  "BaseLeafVersion = 0xc0"

definition PubKeyFormatCompressedOdd :: byte where
  "PubKeyFormatCompressedOdd = 0x03"

definition NewBaseTapLeaf :: "bytes \<Rightarrow> TapLeaf" where
  "NewBaseTapLeaf script = \<lparr>LeafVersion = BaseLeafVersion, tl_Script = script\<rparr>"

record TapscriptProof =
  TapLeaf :: TapLeaf
  RootNode :: TapLeaf
  InclusionProof :: bytes

record ControlBlock =
  InternalKey :: PubKey
  OutputKeyYIsOdd :: bool
  cb_LeafVersion :: byte
  cb_InclusionProof :: bytes

definition hash_bytes :: "Hash \<Rightarrow> bytes" where
  "hash_bytes h = (case h of Hash32 b \<Rightarrow> b)"

text \<open>
  \<^verbatim>\<open>SerializeCompressed()[0]\<close> is the first of 33 bytes; an environment that returned no
  byte at all is read as an even key.
\<close>

definition ToControlBlock :: "env \<Rightarrow> TapscriptProof \<Rightarrow> PubKey \<Rightarrow> ControlBlock" where
  "ToControlBlock env t internalKey =
     (let rootHash = TapHash env (RootNode t);
          taprootKey = ComputeTaprootOutputKey env internalKey (hash_bytes rootHash);
          outputKeyYIsOdd =
            (case SerializeCompressed env taprootKey of
               [] \<Rightarrow> False
             | b # _ \<Rightarrow> b = PubKeyFormatCompressedOdd)
      in \<lparr>InternalKey = internalKey, OutputKeyYIsOdd = outputKeyYIsOdd,
          cb_LeafVersion = LeafVersion (TapLeaf t), cb_InclusionProof = InclusionProof t\<rparr>)"

definition ToBytes :: "env \<Rightarrow> ControlBlock \<Rightarrow> error + bytes" where
  "ToBytes env c =
     (let yParity = (if OutputKeyYIsOdd c then 1 else 0);
          leafVersionAndParity = cb_LeafVersion c OR yParity
      in Inr ([leafVersionAndParity] @ SerializePubKey env (InternalKey c) @ cb_InclusionProof c))"

text \<open>
  The loop of \<^verbatim>\<open>newInscriptionTxCtxData\<close> that pushes the body in pieces of
  \<^verbatim>\<open>maxChunkSize\<close> bytes; \<open>i\<close> is the loop variable.
\<close>

definition maxChunkSize :: nat where
  "maxChunkSize = 520"

function addBodyChunks :: "bytes \<Rightarrow> nat \<Rightarrow> ScriptBuilder \<Rightarrow> ScriptBuilder" where
  "addBodyChunks body i inscriptionBuilder =
     (let bodySize = length body in
      if i < bodySize
      then (let end = (if i + maxChunkSize > bodySize then bodySize else i + maxChunkSize)
            in addBodyChunks body (i + maxChunkSize)
                 (AddFullData (take (end - i) (drop i body)) inscriptionBuilder))
      else inscriptionBuilder)"
  by pat_completeness auto
termination
  by (relation "measure (\<lambda>(body, i, b). length body - i)") (auto simp: maxChunkSize_def)

declare addBodyChunks.simps [simp del]

definition newInscriptionTxCtxData ::
    "env \<Rightarrow> Params \<Rightarrow> InscriptionRequest \<Rightarrow> nat \<Rightarrow> error + inscriptionTxCtxData" where
  "newInscriptionTxCtxData env network inscriptionRequest indexOfInscriptionDataList =
     (case CommitTxPrevOutputList inscriptionRequest of
        [] \<Rightarrow> Inl Panic
      | prevOutput0 # _ \<Rightarrow>
     (case DecodeWIF env (PrivateKey prevOutput0) of
        Inl e \<Rightarrow> Inl e
      | Inr privateKey \<Rightarrow>
     (if indexOfInscriptionDataList \<ge> length (InscriptionDataList inscriptionRequest)
      then Inl Panic
      else
     (let inscriptionData = InscriptionDataList inscriptionRequest ! indexOfInscriptionDataList;
          b1 = AddData (SerializePubKey env (PubKeyOf env privateKey)) NewScriptBuilder;
          b2 = AddOp OP_CHECKSIG b1;
          b3 = AddOp OP_FALSE b2;
          b4 = AddOp OP_IF b3;
          b5 = AddData (bytes_of_string OrdPrefix) b4;
          b6 = AddOp OP_DATA_1 b5;
          b7 = AddOp OP_DATA_1 b6;
          b8 = AddData (bytes_of_string (ContentType inscriptionData)) b7;
          b9 = AddOp OP_0 b8;
          inscriptionBuilder = addBodyChunks (Body inscriptionData) 0 b9
      in
     (case Script inscriptionBuilder of
        Inl e \<Rightarrow> Inl e
      | Inr script \<Rightarrow>
     (let inscriptionScript = script @ [OP_ENDIF];
          proof = \<lparr>TapLeaf = NewBaseTapLeaf (SerializePubKey env (PubKeyOf env privateKey)),
                   RootNode = NewBaseTapLeaf inscriptionScript,
                   InclusionProof = []\<rparr>;
          controlBlock = ToControlBlock env proof (PubKeyOf env privateKey)
      in
     (case ToBytes env controlBlock of
        Inl e \<Rightarrow> Inl e
      | Inr controlBlockWitness \<Rightarrow>
     (let tapHash = TapHash env (RootNode proof) in
     (case NewAddressTaproot env
             (SerializePubKey env
                (ComputeTaprootOutputKey env (PubKeyOf env privateKey) (hash_bytes tapHash)))
             network of
        Inl e \<Rightarrow> Inl e
      | Inr commitTxAddress \<Rightarrow>
     (case PayToAddrScript env commitTxAddress of
        Inl e \<Rightarrow> Inl e
      | Inr commitTxAddressPkScript \<Rightarrow>
          Inr \<lparr>ctx_PrivateKey = privateKey,
               InscriptionScript = inscriptionScript,
               CommitTxAddress = EncodeAddress env commitTxAddress,
               CommitTxAddressPkScript = commitTxAddressPkScript,
               ControlBlockWitness = controlBlockWitness,
               RevealTxPrevOutput = None\<rparr>))))))))))"

section \<open>Signing the commit inputs\<close>

definition set_Witness :: "MsgTx \<Rightarrow> nat \<Rightarrow> bytes list \<Rightarrow> MsgTx" where
  "set_Witness tx index witness =
     tx\<lparr>TxIn := (TxIn tx)[index := (TxIn tx ! index)\<lparr>Witness := witness\<rparr>]\<rparr>"

definition set_SignatureScript :: "MsgTx \<Rightarrow> nat \<Rightarrow> bytes \<Rightarrow> MsgTx" where
  "set_SignatureScript tx index sigScript =
     tx\<lparr>TxIn := (TxIn tx)[index := (TxIn tx ! index)\<lparr>SignatureScript := sigScript\<rparr>]\<rparr>"

text \<open>
  \<^verbatim>\<open>SignTxInput1\<close> writes into \<^verbatim>\<open>tx.TxIn[index]\<close>; the model returns the transaction
  with that input replaced. \<^verbatim>\<open>Sign\<close> calls it with an index below \<^verbatim>\<open>len(tx.TxIn)\<close> only.
\<close>

definition SignTxInput1 ::
    "env \<Rightarrow> PrivKey \<Rightarrow> MsgTx \<Rightarrow> nat \<Rightarrow> TxSigHashes \<Rightarrow> bytes \<Rightarrow> int64 \<Rightarrow> error + MsgTx" where
  "SignTxInput1 env privateKey tx index txSigHashes pkScript amount =
     (if IsPayToTaproot env pkScript
      then (case TaprootWitnessSignature env tx txSigHashes index amount pkScript SigHashDefault privateKey of
              Inl e \<Rightarrow> Inl e
            | Inr witness \<Rightarrow> Inr (set_Witness tx index witness))
      else if IsPayToPubKeyHash env pkScript
      then (case SignatureScript_of env tx index pkScript SigHashAll privateKey True of
              Inl e \<Rightarrow> Inl e
            | Inr sigScript \<Rightarrow> Inr (set_SignatureScript tx index sigScript))
      else
       (let pubKeyBytes = SerializeCompressed env (PubKeyOf env privateKey) in
        case PayToPubKeyHashScript env (Hash160 env pubKeyBytes) of
          Inl e \<Rightarrow> Inl e
        | Inr script \<Rightarrow>
       (case WitnessSignature env tx txSigHashes index amount script SigHashAll privateKey True of
          Inl e \<Rightarrow> Inl e
        | Inr witness \<Rightarrow>
       (let tx1 = set_Witness tx index witness in
        if \<not> IsPayToScriptHash env pkScript then Inr tx1
        else
       (case PayToWitnessPubKeyHashScript env (Hash160 env pubKeyBytes) of
          Inl e \<Rightarrow> Inl e
        | Inr redeemScript \<Rightarrow>
            Inr (set_SignatureScript tx1 index
                   ((of_nat (length redeemScript) :: byte) # redeemScript)))))))"

text \<open>
  The loop of \<^verbatim>\<open>Sign\<close> over the inputs, by index. A missing previous output (a nil pointer in
  Go) and a missing private key panic.
\<close>

fun SignLoop ::
    "env \<Rightarrow> PrivKey list \<Rightarrow> MultiPrevOutFetcher \<Rightarrow> TxSigHashes \<Rightarrow> nat list \<Rightarrow> MsgTx \<Rightarrow> error + MsgTx" where
  "SignLoop env privateKeys prevOutFetcher txSigHashes [] tx = Inr tx"
| "SignLoop env privateKeys prevOutFetcher txSigHashes (i # rest) tx =
     (case FetchPrevOutput prevOutFetcher (PreviousOutPoint (TxIn tx ! i)) of
        None \<Rightarrow> Inl Panic
      | Some prevOut \<Rightarrow>
          if i \<ge> length privateKeys then Inl Panic
          else (case SignTxInput1 env (privateKeys ! i) tx i txSigHashes (PkScript prevOut) (Value prevOut) of
                  Inl e \<Rightarrow> Inl e
                | Inr tx' \<Rightarrow> SignLoop env privateKeys prevOutFetcher txSigHashes rest tx'))"

definition Sign :: "env \<Rightarrow> MsgTx \<Rightarrow> PrivKey list \<Rightarrow> MultiPrevOutFetcher \<Rightarrow> error + MsgTx" where
  "Sign env tx privateKeys prevOutFetcher =
     (let txSigHashes = NewTxSigHashes tx prevOutFetcher
      in SignLoop env privateKeys prevOutFetcher txSigHashes [0..<length (TxIn tx)] tx)"

section \<open>Reveal pre-sizer\<close>

definition addTxInTxOutIntoRevealTx ::
    "env \<Rightarrow> Params \<Rightarrow> string list \<Rightarrow> int64 \<Rightarrow> MsgTx \<Rightarrow> nat \<Rightarrow> error + MsgTx" where
  "addTxInTxOutIntoRevealTx env network destination revealOutValue tx index =
     (let in0 = (NewTxIn \<lparr>Hash = zeroHash, Index = of_nat index\<rparr> [] [])\<lparr>Sequence := DefaultSequenceNum\<rparr>;
          tx1 = AddTxIn in0 tx
      in if index \<ge> length destination then Inl Panic
         else (case AddrToPkScript env (destination ! index) network of
                 Inl e \<Rightarrow> Inl e
               | Inr scriptPubKey \<Rightarrow> Inr (AddTxOut (NewTxOut revealOutValue scriptPubKey) tx1)))"

text \<open>
  The locals of the loop of \<^verbatim>\<open>buildEmptyRevealTx\<close>; the contexts of the builder are
  updated in place, so they are part of the loop's state.
\<close>

record revealLoopState =
  st_totalPrevOutputValue :: int64
  st_revealTx :: "MsgTx option list"
  st_mustRevealTxFees :: "int64 list"
  st_commitAddrs :: "string list"
  st_ctxList :: "inscriptionTxCtxData option list"

fun buildEmptyRevealTxLoop ::
    "env \<Rightarrow> Params \<Rightarrow> string list \<Rightarrow> int64 \<Rightarrow> int64 \<Rightarrow> nat list \<Rightarrow> revealLoopState
       \<Rightarrow> error option \<times> revealLoopState" where
  "buildEmptyRevealTxLoop env network destination revealOutValue revealFeeRate [] st = (None, st)"
| "buildEmptyRevealTxLoop env network destination revealOutValue revealFeeRate (i # rest) st =
     (case addTxInTxOutIntoRevealTx env network destination revealOutValue (NewMsgTx DefaultTxVersion) i of
        Inl e \<Rightarrow> (Some e, st)
      | Inr tx \<Rightarrow>
     (if i \<ge> length (st_ctxList st) then (Some Panic, st)
      else
     (case st_ctxList st ! i of
        None \<Rightarrow> (Some Panic, st)
      | Some ctx \<Rightarrow>
     (let prevOutputValue0 = revealOutValue + SerializeSize tx * revealFeeRate;
          emptySignature = replicate 64 0;
          emptyControlBlockWitness = replicate 33 0;
          fee = go_div (TxWitness_SerializeSize
                          [emptySignature, InscriptionScript ctx, emptyControlBlockWitness] + 2 + 3) 4
                  * revealFeeRate;
          prevOutputValue = prevOutputValue0 + fee;
          ctx' = ctx\<lparr>RevealTxPrevOutput :=
                   Some \<lparr>Value = prevOutputValue, PkScript = CommitTxAddressPkScript ctx\<rparr>\<rparr>
      in buildEmptyRevealTxLoop env network destination revealOutValue revealFeeRate rest
           \<lparr>st_totalPrevOutputValue = st_totalPrevOutputValue st + prevOutputValue,
            st_revealTx = (st_revealTx st)[i := Some tx],
            st_mustRevealTxFees = (st_mustRevealTxFees st)[i := SerializeSize tx * revealFeeRate + fee],
            st_commitAddrs = (st_commitAddrs st)[i := CommitTxAddress ctx],
            st_ctxList = (st_ctxList st)[i := Some ctx']\<rparr>))))"

definition buildEmptyRevealTx ::
    "env \<Rightarrow> string list \<Rightarrow> int64 \<Rightarrow> int64 \<Rightarrow> InscriptionBuilder
       \<Rightarrow> (error + int64) \<times> InscriptionBuilder" where
  "buildEmptyRevealTx env destination revealOutValue revealFeeRate builder =
     (let total = length (InscriptionTxCtxDataList builder);
          st0 = \<lparr>st_totalPrevOutputValue = 0,
                 st_revealTx = replicate total None,
                 st_mustRevealTxFees = replicate total 0,
                 st_commitAddrs = replicate total [],
                 st_ctxList = InscriptionTxCtxDataList builder\<rparr>
      in case buildEmptyRevealTxLoop env (Network builder) destination revealOutValue revealFeeRate
                [0..<total] st0 of
           (Some e, st) \<Rightarrow> (Inl e, builder\<lparr>InscriptionTxCtxDataList := st_ctxList st\<rparr>)
         | (None, st) \<Rightarrow>
             (Inr (st_totalPrevOutputValue st),
              builder\<lparr>InscriptionTxCtxDataList := st_ctxList st,
                      RevealTx := st_revealTx st,
                      MustRevealTxFees := st_mustRevealTxFees st,
                      CommitAddrs := st_commitAddrs st\<rparr>))"

section \<open>Commit builder\<close>

text \<open>
  The first loop of \<^verbatim>\<open>buildCommitTx\<close>: one input per previous output, registered in the
  builder's fetcher (which is therefore updated even when a later element fails).
\<close>

fun commitInputsLoop ::
    "env \<Rightarrow> Params \<Rightarrow> PrevOutput list \<Rightarrow> MsgTx \<times> MultiPrevOutFetcher \<times> int64
       \<Rightarrow> error option \<times> MsgTx \<times> MultiPrevOutFetcher \<times> int64" where
  "commitInputsLoop env network [] st = (None, st)"
| "commitInputsLoop env network (prevOutput # rest) (tx, fetcher, totalSenderAmount) =
     (case NewHashFromStr env (TxId prevOutput) of
        Inl e \<Rightarrow> (Some e, tx, fetcher, totalSenderAmount)
      | Inr txHash \<Rightarrow>
     (let outPoint = \<lparr>Hash = txHash, Index = VOut prevOutput\<rparr> in
      case AddrToPkScript env (Address prevOutput) network of
        Inl e \<Rightarrow> (Some e, tx, fetcher, totalSenderAmount)
      | Inr pkScript \<Rightarrow>
     (let txOut = NewTxOut (Amount prevOutput) pkScript;
          fetcher' = AddPrevOut outPoint txOut fetcher;
          in0 = (NewTxIn outPoint [] [])\<lparr>Sequence := DefaultSequenceNum\<rparr>
      in commitInputsLoop env network rest
           (AddTxIn in0 tx, fetcher', totalSenderAmount + Amount prevOutput))))"

text \<open>
  The second loop: the outputs that fund the reveals. A context that is nil, or whose
  \<^verbatim>\<open>RevealTxPrevOutput\<close> is still nil, makes Go panic (at once, or when the transaction that
  holds the nil output is hashed for signing).
\<close>

fun commitOutputs :: "inscriptionTxCtxData option list \<Rightarrow> error + TxOut list" where
  "commitOutputs [] = Inr []"
| "commitOutputs (None # rest) = Inl Panic"
| "commitOutputs (Some ctx # rest) =
     (case RevealTxPrevOutput ctx of
        None \<Rightarrow> Inl Panic
      | Some out \<Rightarrow>
          (case commitOutputs rest of Inl e \<Rightarrow> Inl e | Inr outs \<Rightarrow> Inr (out # outs)))"

text \<open>
  \<^verbatim>\<open>txForEstimate\<close> shares its inputs with \<^verbatim>\<open>tx\<close> (the slice of pointers is assigned, not
  copied), so the signatures of the estimate are in \<^verbatim>\<open>tx\<close> as well: \<open>tx1\<close> below.
\<close>

definition buildCommitTx ::
    "env \<Rightarrow> PrevOutput list \<Rightarrow> string \<Rightarrow> int64 \<Rightarrow> int64 \<Rightarrow> int64 \<Rightarrow> InscriptionBuilder
       \<Rightarrow> error option \<times> InscriptionBuilder" where
  "buildCommitTx env commitTxPrevOutputList changeAddress totalRevealPrevOutputValue commitFeeRate
       minChangeValue builder =
     (case AddrToPkScript env changeAddress (Network builder) of
        Inl e \<Rightarrow> (Some e, builder)
      | Inr changePkScript \<Rightarrow>
     (case commitInputsLoop env (Network builder) commitTxPrevOutputList
             (NewMsgTx DefaultTxVersion, CommitTxPrevOutputFetcher builder, 0) of
        (Some e, tx, fetcher, totalSenderAmount) \<Rightarrow>
          (Some e, builder\<lparr>CommitTxPrevOutputFetcher := fetcher\<rparr>)
      | (None, tx0, fetcher, totalSenderAmount) \<Rightarrow>
     (let builder1 = builder\<lparr>CommitTxPrevOutputFetcher := fetcher\<rparr> in
      case commitOutputs (InscriptionTxCtxDataList builder1) of
        Inl e \<Rightarrow> (Some e, builder1)
      | Inr outs \<Rightarrow>
     (let tx = tx0\<lparr>TxOut := TxOut tx0 @ outs @ [NewTxOut 0 changePkScript]\<rparr>;
          txForEstimate = (NewMsgTx DefaultTxVersion)\<lparr>TxIn := TxIn tx, TxOut := TxOut tx\<rparr>
      in
      case Sign env txForEstimate (CommitTxPrivateKeyList builder1) (CommitTxPrevOutputFetcher builder1) of
        Inl e \<Rightarrow> (Some e, builder1)
      | Inr txForEstimate1 \<Rightarrow>
     (let tx1 = tx\<lparr>TxIn := TxIn txForEstimate1\<rparr>;
          fee = GetTxVirtualSize txForEstimate1 * commitFeeRate;
          changeAmount = totalSenderAmount - totalRevealPrevOutputValue - fee
      in
      if minChangeValue \<le>s changeAmount
      then (None, builder1\<lparr>CommitTx :=
              Some (tx1\<lparr>TxOut := (TxOut tx1)[length (TxOut tx1) - 1 :=
                                   (last (TxOut tx1))\<lparr>Value := changeAmount\<rparr>]\<rparr>)\<rparr>)
      else
     (let tx2 = tx1\<lparr>TxOut := butlast (TxOut tx1)\<rparr> in
      if changeAmount <s 0
      then
       (let txForEstimate2 = txForEstimate1\<lparr>TxOut := butlast (TxOut txForEstimate1)\<rparr>;
            feeWithoutChange = GetTxVirtualSize txForEstimate2 * commitFeeRate
        in if totalSenderAmount - totalRevealPrevOutputValue - feeWithoutChange <s 0
           then (Some (Error ''insufficient balance''), builder1\<lparr>MustCommitTxFee := fee\<rparr>)
           else (None, builder1\<lparr>CommitTx := Some tx2\<rparr>))
      else (None, builder1\<lparr>CommitTx := Some tx2\<rparr>)))))))"

definition signCommitTx :: "env \<Rightarrow> InscriptionBuilder \<Rightarrow> error option \<times> InscriptionBuilder" where
  "signCommitTx env builder =
     (case CommitTx builder of
        None \<Rightarrow> (Some Panic, builder)
      | Some tx \<Rightarrow>
          (case Sign env tx (CommitTxPrivateKeyList builder) (CommitTxPrevOutputFetcher builder) of
             Inl e \<Rightarrow> (Some e, builder)
           | Inr tx' \<Rightarrow> (None, builder\<lparr>CommitTx := Some tx'\<rparr>)))"

section \<open>Reveal completer\<close>

text \<open>
  The three loops of \<^verbatim>\<open>completeRevealTx\<close>, each over the indices in order. Each reads
  \<^verbatim>\<open>builder.RevealTx[i].TxIn[0]\<close>: a missing transaction or input panics.
\<close>

definition set_PrevHash :: "MsgTx \<Rightarrow> Hash \<Rightarrow> MsgTx" where
  "set_PrevHash tx h =
     tx\<lparr>TxIn := (TxIn tx)[0 := (TxIn tx ! 0)\<lparr>PreviousOutPoint := (PreviousOutPoint (TxIn tx ! 0))\<lparr>Hash := h\<rparr>\<rparr>]\<rparr>"

fun registerRevealPrevOuts :: "env \<Rightarrow> nat list \<Rightarrow> InscriptionBuilder \<Rightarrow> error option \<times> InscriptionBuilder" where
  "registerRevealPrevOuts env [] builder = (None, builder)"
| "registerRevealPrevOuts env (i # rest) builder =
     (case CommitTx builder of
        None \<Rightarrow> (Some Panic, builder)
      | Some commit \<Rightarrow>
     (if i \<ge> length (InscriptionTxCtxDataList builder) then (Some Panic, builder)
      else
      case InscriptionTxCtxDataList builder ! i of
        None \<Rightarrow> (Some Panic, builder)
      | Some ctx \<Rightarrow>
     (case RevealTxPrevOutput ctx of
        None \<Rightarrow> (Some Panic, builder)
      | Some prevOut \<Rightarrow>
     (let builder1 = builder\<lparr>RevealTxPrevOutputFetcher :=
                        AddPrevOut \<lparr>Hash = TxHash env commit, Index = of_nat i\<rparr> prevOut
                          (RevealTxPrevOutputFetcher builder)\<rparr>
      in
      if i \<ge> length (RevealTx builder1) then (Some Panic, builder1)
      else
     (case RevealTx builder1 ! i of
        None \<Rightarrow> (Some Panic, builder1)
      | Some revealTx \<Rightarrow>
          if TxIn revealTx = [] then (Some Panic, builder1)
          else registerRevealPrevOuts env rest
                 (builder1\<lparr>RevealTx := (RevealTx builder1)[i := Some (set_PrevHash revealTx (TxHash env commit))]\<rparr>))))))"

fun signRevealTxs :: "env \<Rightarrow> nat list \<Rightarrow> InscriptionBuilder \<Rightarrow> error option \<times> InscriptionBuilder" where
  "signRevealTxs env [] builder = (None, builder)"
| "signRevealTxs env (i # rest) builder =
     (if i \<ge> length (RevealTx builder) then (Some Panic, builder)
      else
     (case RevealTx builder ! i of
        None \<Rightarrow> (Some Panic, builder)
      | Some revealTx \<Rightarrow>
     (if i \<ge> length (InscriptionTxCtxDataList builder) then (Some Panic, builder)
      else
      case InscriptionTxCtxDataList builder ! i of
        None \<Rightarrow> (Some Panic, builder)
      | Some ctx \<Rightarrow>
     (case CalcTapscriptSignaturehash env
             (NewTxSigHashes revealTx (RevealTxPrevOutputFetcher builder))
             SigHashDefault revealTx 0 (RevealTxPrevOutputFetcher builder)
             (NewBaseTapLeaf (InscriptionScript ctx)) of
        Inl e \<Rightarrow> (Some e, builder)
      | Inr witnessArray \<Rightarrow>
     (case schnorr_Sign env (ctx_PrivateKey ctx) witnessArray of
        Inl e \<Rightarrow> (Some e, builder)
      | Inr signature \<Rightarrow>
     (let witness = [Serialize env signature, InscriptionScript ctx, ControlBlockWitness ctx] in
      if TxIn revealTx = [] then (Some Panic, builder)
      else signRevealTxs env rest
             (builder\<lparr>RevealTx := (RevealTx builder)[i := Some (set_Witness revealTx 0 witness)]\<rparr>)))))))"

fun checkRevealWeights :: "nat \<Rightarrow> MsgTx option list \<Rightarrow> error option" where
  "checkRevealWeights i [] = None"
| "checkRevealWeights i (None # rest) = Some Panic"
| "checkRevealWeights i (Some tx # rest) =
     (let revealWeight = GetTransactionWeight tx in
      if MaxStandardTxWeight <s revealWeight
      then Some (Error (''reveal(index '' @ string_of_nat i @ '') transaction weight greater than ''
                   @ string_of_int64 MaxStandardTxWeight @ '' (MAX_STANDARD_TX_WEIGHT): ''
                   @ string_of_int64 revealWeight))
      else checkRevealWeights (Suc i) rest)"

definition completeRevealTx :: "env \<Rightarrow> InscriptionBuilder \<Rightarrow> error option \<times> InscriptionBuilder" where
  "completeRevealTx env builder =
     (case registerRevealPrevOuts env [0..<length (InscriptionTxCtxDataList builder)] builder of
        (Some e, builder1) \<Rightarrow> (Some e, builder1)
      | (None, builder1) \<Rightarrow>
     (case signRevealTxs env [0..<length (InscriptionTxCtxDataList builder1)] builder1 of
        (Some e, builder2) \<Rightarrow> (Some e, builder2)
      | (None, builder2) \<Rightarrow> (checkRevealWeights 0 (RevealTx builder2), builder2)))"

section \<open>The builder as a whole\<close>

text \<open>The loop of \<^verbatim>\<open>initTool\<close> that creates the contexts and collects the destinations.\<close>

fun initToolLoop ::
    "env \<Rightarrow> Params \<Rightarrow> InscriptionRequest \<Rightarrow> nat list \<Rightarrow> InscriptionBuilder \<times> string list
       \<Rightarrow> error option \<times> InscriptionBuilder \<times> string list" where
  "initToolLoop env network request [] st = (None, st)"
| "initToolLoop env network request (i # rest) (builder, destinations) =
     (case newInscriptionTxCtxData env network request i of
        Inl e \<Rightarrow> (Some e, builder, destinations)
      | Inr inscriptionTxCtxData \<Rightarrow>
          if i \<ge> length (InscriptionTxCtxDataList builder) then (Some Panic, builder, destinations)
          else initToolLoop env network request rest
                 (builder\<lparr>InscriptionTxCtxDataList :=
                            (InscriptionTxCtxDataList builder)[i := Some inscriptionTxCtxData]\<rparr>,
                  destinations[i := RevealAddr (InscriptionDataList request ! i)]))"

text \<open>
  \<^verbatim>\<open>initTool\<close> replaces every error of \<^verbatim>\<open>signCommitTx\<close> by one message; a panic is not an
  error value and passes through.
\<close>

definition initTool ::
    "env \<Rightarrow> Params \<Rightarrow> InscriptionRequest \<Rightarrow> InscriptionBuilder \<Rightarrow> error option \<times> InscriptionBuilder" where
  "initTool env network request builder =
     (let destinations = replicate (length (InscriptionDataList request)) [];
          revealOutValue = (if 0 <s RevealOutValue request then RevealOutValue request
                            else DefaultRevealOutValue);
          minChangeValue = (if 0 <s MinChangeValue request then MinChangeValue request
                            else DefaultMinChangeValue)
      in
      case initToolLoop env network request [0..<length (InscriptionDataList request)]
             (builder, destinations) of
        (Some e, builder1, destinations1) \<Rightarrow> (Some e, builder1)
      | (None, builder1, destinations1) \<Rightarrow>
     (case buildEmptyRevealTx env destinations1 revealOutValue (RevealFeeRate request) builder1 of
        (Inl e, builder2) \<Rightarrow> (Some e, builder2)
      | (Inr totalRevealPrevOutputValue, builder2) \<Rightarrow>
     (case buildCommitTx env (CommitTxPrevOutputList request) (ChangeAddress request)
             totalRevealPrevOutputValue (CommitFeeRate request) minChangeValue builder2 of
        (Some e, builder3) \<Rightarrow> (Some e, builder3)
      | (None, builder3) \<Rightarrow>
     (case signCommitTx env builder3 of
        (Some Panic, builder4) \<Rightarrow> (Some Panic, builder4)
      | (Some (Error m), builder4) \<Rightarrow> (Some (Error ''sign commit tx error''), builder4)
      | (None, builder4) \<Rightarrow> completeRevealTx env builder4))))"

fun decodeKeys :: "env \<Rightarrow> PrevOutput list \<Rightarrow> error + PrivKey list" where
  "decodeKeys env [] = Inr []"
| "decodeKeys env (prevOutput # rest) =
     (case DecodeWIF env (PrivateKey prevOutput) of
        Inl e \<Rightarrow> Inl e
      | Inr privateKeyWif \<Rightarrow>
          (case decodeKeys env rest of
             Inl e \<Rightarrow> Inl e
           | Inr commitTxPrivateKeyList \<Rightarrow> Inr (privateKeyWif # commitTxPrivateKeyList)))"

text \<open>
  \<^verbatim>\<open>NewInscriptionTool\<close> returns the tool together with the error of \<^verbatim>\<open>initTool\<close>; the tool is
  nil only when a key does not decode.
\<close>

definition NewInscriptionTool ::
    "env \<Rightarrow> Params \<Rightarrow> InscriptionRequest \<Rightarrow> InscriptionBuilder option \<times> error option" where
  "NewInscriptionTool env network request =
     (case decodeKeys env (CommitTxPrevOutputList request) of
        Inl e \<Rightarrow> (None, Some e)
      | Inr commitTxPrivateKeyList \<Rightarrow>
          (let tool = \<lparr>Network = network,
                       CommitTxPrevOutputFetcher = NewMultiPrevOutFetcher,
                       CommitTxPrivateKeyList = commitTxPrivateKeyList,
                       InscriptionTxCtxDataList = replicate (length (InscriptionDataList request)) None,
                       RevealTxPrevOutputFetcher = NewMultiPrevOutFetcher,
                       builder_CommitTxPrevOutputList = CommitTxPrevOutputList request,
                       RevealTx = [],
                       CommitTx = None,
                       MustCommitTxFee = 0,
                       MustRevealTxFees = [],
                       CommitAddrs = []\<rparr>
           in case initTool env network request tool of (err, tool') \<Rightarrow> (Some tool', err)))"

section \<open>Serialized results and fees\<close>

definition GetTxHex :: "env \<Rightarrow> MsgTx \<Rightarrow> error + string" where
  "GetTxHex env tx =
     (case tx_Serialize env tx of
        Inl e \<Rightarrow> Inl e
      | Inr buf \<Rightarrow> Inr (hex_EncodeToString env buf))"

definition GetCommitTxHex :: "env \<Rightarrow> InscriptionBuilder \<Rightarrow> error + string" where
  "GetCommitTxHex env builder =
     (case CommitTx builder of None \<Rightarrow> Inl Panic | Some tx \<Rightarrow> GetTxHex env tx)"

fun GetTxHexList :: "env \<Rightarrow> MsgTx option list \<Rightarrow> error + string list" where
  "GetTxHexList env [] = Inr []"
| "GetTxHexList env (None # rest) = Inl Panic"
| "GetTxHexList env (Some tx # rest) =
     (case GetTxHex env tx of
        Inl e \<Rightarrow> Inl e
      | Inr txHex \<Rightarrow>
          (case GetTxHexList env rest of Inl e \<Rightarrow> Inl e | Inr txHexList \<Rightarrow> Inr (txHex # txHexList)))"

definition GetRevealTxHexList :: "env \<Rightarrow> InscriptionBuilder \<Rightarrow> error + string list" where
  "GetRevealTxHexList env builder = GetTxHexList env (RevealTx builder)"

text \<open>
  \<^verbatim>\<open>CalculateFee\<close>. The fee of a reveal is appended once per input, and the output read is
  the one with the input's index.
\<close>

fun sumPrevValues :: "MultiPrevOutFetcher \<Rightarrow> TxIn list \<Rightarrow> error + int64" where
  "sumPrevValues fetcher [] = Inr 0"
| "sumPrevValues fetcher (txin # rest) =
     (case FetchPrevOutput fetcher (PreviousOutPoint txin) of
        None \<Rightarrow> Inl Panic
      | Some prevOut \<Rightarrow>
          (case sumPrevValues fetcher rest of Inl e \<Rightarrow> Inl e | Inr v \<Rightarrow> Inr (Value prevOut + v)))"

fun revealFeeLoop ::
    "MultiPrevOutFetcher \<Rightarrow> MsgTx \<Rightarrow> nat list \<Rightarrow> int64 \<times> int64 list \<Rightarrow> error + int64 \<times> int64 list" where
  "revealFeeLoop fetcher tx [] st = Inr st"
| "revealFeeLoop fetcher tx (i # rest) (revealTxFee, revealTxFees) =
     (case FetchPrevOutput fetcher (PreviousOutPoint (TxIn tx ! i)) of
        None \<Rightarrow> Inl Panic
      | Some prevOut \<Rightarrow>
          if i \<ge> length (TxOut tx) then Inl Panic
          else (let revealTxFee' = revealTxFee + Value prevOut - Value (TxOut tx ! i)
                in revealFeeLoop fetcher tx rest (revealTxFee', revealTxFees @ [revealTxFee'])))"

fun revealFees :: "MultiPrevOutFetcher \<Rightarrow> MsgTx option list \<Rightarrow> int64 list \<Rightarrow> error + int64 list" where
  "revealFees fetcher [] revealTxFees = Inr revealTxFees"
| "revealFees fetcher (None # rest) revealTxFees = Inl Panic"
| "revealFees fetcher (Some tx # rest) revealTxFees =
     (case revealFeeLoop fetcher tx [0..<length (TxIn tx)] (0, revealTxFees) of
        Inl e \<Rightarrow> Inl e
      | Inr (revealTxFee, revealTxFees') \<Rightarrow> revealFees fetcher rest revealTxFees')"

definition commitFeeOf :: "MultiPrevOutFetcher \<Rightarrow> MsgTx \<Rightarrow> error + int64" where
  "commitFeeOf fetcher tx =
     (case sumPrevValues fetcher (TxIn tx) of
        Inl e \<Rightarrow> Inl e
      | Inr v \<Rightarrow> Inr (v - sum_list (map Value (TxOut tx))))"

definition CalculateFee :: "InscriptionBuilder \<Rightarrow> error + int64 \<times> int64 list" where
  "CalculateFee builder =
     (case CommitTx builder of
        None \<Rightarrow> Inl Panic
      | Some commit \<Rightarrow>
     (case commitFeeOf (CommitTxPrevOutputFetcher builder) commit of
        Inl e \<Rightarrow> Inl e
      | Inr commitTxFee \<Rightarrow>
     (case revealFees (RevealTxPrevOutputFetcher builder) (RevealTx builder) [] of
        Inl e \<Rightarrow> Inl e
      | Inr revealTxFees \<Rightarrow> Inr (commitTxFee, revealTxFees))))"

section \<open>Inscribe\<close>

definition Inscribe :: "env \<Rightarrow> Params \<Rightarrow> InscriptionRequest \<Rightarrow> error + InscribeTxs" where
  "Inscribe env network request =
     (case NewInscriptionTool env network request of
        (tool, Some Panic) \<Rightarrow> Inl Panic
      | (tool, Some (Error m)) \<Rightarrow>
          if m = ''insufficient balance''
          then (case tool of
                  None \<Rightarrow> Inl Panic
                | Some t \<Rightarrow>
                    Inr \<lparr>res_CommitTx = [],
                         res_RevealTxs = [],
                         res_CommitTxFee = MustCommitTxFee t,
                         res_RevealTxFees = MustRevealTxFees t,
                         res_CommitAddrs = CommitAddrs t\<rparr>)
          else Inl (Error m)
      | (tool, None) \<Rightarrow>
     (case tool of
        None \<Rightarrow> Inl Panic
      | Some t \<Rightarrow>
     (case GetCommitTxHex env t of
        Inl e \<Rightarrow> Inl e
      | Inr commitTx \<Rightarrow>
     (case GetRevealTxHexList env t of
        Inl e \<Rightarrow> Inl e
      | Inr revealTxs \<Rightarrow>
     (case CalculateFee t of
        Inl e \<Rightarrow> Inl e
      | Inr (commitTxFee, revealTxFees) \<Rightarrow>
          Inr \<lparr>res_CommitTx = commitTx,
               res_RevealTxs = revealTxs,
               res_CommitTxFee = commitTxFee,
               res_RevealTxFees = revealTxFees,
               res_CommitAddrs = CommitAddrs t\<rparr>)))))"

section \<open>MPC variant\<close>

fun buildInscriptionScriptCtxLoop ::
    "env \<Rightarrow> Params \<Rightarrow> InscriptionRequest \<Rightarrow> nat list \<Rightarrow> inscriptionTxCtxData list
       \<Rightarrow> error + inscriptionTxCtxData list" where
  "buildInscriptionScriptCtxLoop env network request [] scriptCtxList = Inr scriptCtxList"
| "buildInscriptionScriptCtxLoop env network request (i # rest) scriptCtxList =
     (case newInscriptionTxCtxData env network request i of
        Inl e \<Rightarrow> Inl e
      | Inr scriptCtx \<Rightarrow>
          buildInscriptionScriptCtxLoop env network request rest (scriptCtxList @ [scriptCtx]))"

definition buildInscriptionScriptCtxList ::
    "env \<Rightarrow> InscriptionRequest \<Rightarrow> Params \<Rightarrow> error + inscriptionTxCtxData list" where
  "buildInscriptionScriptCtxList env request network =
     buildInscriptionScriptCtxLoop env network request [0..<length (InscriptionDataList request)] []"

text \<open>
  \<^verbatim>\<open>calcSigHash\<close>: the digests to sign, and the public keys stored in the inputs of the
  transaction (which the caller's \<^verbatim>\<open>commitTx\<close> therefore carries afterwards).
\<close>

fun calcSigHashLoop ::
    "env \<Rightarrow> MultiPrevOutFetcher \<Rightarrow> InscriptionRequest \<Rightarrow> TxSigHashes \<Rightarrow> nat list
       \<Rightarrow> MsgTx \<times> string list \<Rightarrow> error + MsgTx \<times> string list" where
  "calcSigHashLoop env prevOutFetcher request txSigHashes [] st = Inr st"
| "calcSigHashLoop env prevOutFetcher request txSigHashes (i # rest) (tx, sigHashList) =
     (if i \<ge> length (CommitTxPrevOutputList request) then Inl Panic
      else
     (case hex_DecodeString env (PublicKey (CommitTxPrevOutputList request ! i)) of
        Inl e \<Rightarrow> Inl e
      | Inr pubKeyBytes \<Rightarrow>
     (case FetchPrevOutput prevOutFetcher (PreviousOutPoint (TxIn tx ! i)) of
        None \<Rightarrow> Inl Panic
      | Some prevOut \<Rightarrow>
     (if IsPayToTaproot env (PkScript prevOut)
      then (case CalcTaprootSignatureHash env txSigHashes SigHashDefault tx i prevOutFetcher of
              Inl e \<Rightarrow> Inl e
            | Inr sigHash \<Rightarrow>
                calcSigHashLoop env prevOutFetcher request txSigHashes rest
                  (tx, sigHashList[i := hex_EncodeToString env sigHash]))
      else if IsPayToPubKeyHash env (PkScript prevOut)
      then (case CalcSignatureHash env (PkScript prevOut) SigHashAll tx i of
              Inl e \<Rightarrow> Inl e
            | Inr sigHash \<Rightarrow>
                calcSigHashLoop env prevOutFetcher request txSigHashes rest
                  (set_SignatureScript tx i pubKeyBytes, sigHashList[i := hex_EncodeToString env sigHash]))
      else
     (case PayToPubKeyHashScript env (Hash160 env pubKeyBytes) of
        Inl e \<Rightarrow> Inl e
      | Inr script \<Rightarrow>
     (case CalcWitnessSigHash env script txSigHashes SigHashAll tx i (Value prevOut) of
        Inl e \<Rightarrow> Inl e
      | Inr sigHash \<Rightarrow>
     (let tx1 = set_Witness tx i [pubKeyBytes] in
      if IsPayToScriptHash env (PkScript prevOut)
      then (case PayToWitnessPubKeyHashScript env (Hash160 env pubKeyBytes) of
              Inl e \<Rightarrow> Inl e
            | Inr redeemScript \<Rightarrow>
                calcSigHashLoop env prevOutFetcher request txSigHashes rest
                  (set_SignatureScript tx1 i ((of_nat (length redeemScript) :: byte) # redeemScript),
                   sigHashList[i := hex_EncodeToString env sigHash]))
      else calcSigHashLoop env prevOutFetcher request txSigHashes rest
             (tx1, sigHashList[i := hex_EncodeToString env sigHash]))))))))"

definition calcSigHash ::
    "env \<Rightarrow> MsgTx \<Rightarrow> MultiPrevOutFetcher \<Rightarrow> InscriptionRequest \<Rightarrow> error + MsgTx \<times> string list" where
  "calcSigHash env tx prevOutFetcher request =
     (let sigHashList = replicate (length (TxIn tx)) [];
          txSigHashes = NewTxSigHashes tx prevOutFetcher
      in calcSigHashLoop env prevOutFetcher request txSigHashes [0..<length (TxIn tx)] (tx, sigHashList))"

text \<open>The loop "build reveal tx list" of \<^verbatim>\<open>InscribeForMPCUnsigned\<close> (lines 550 to 583).\<close>

record mpcRevealState =
  mpc_revealTxList :: "MsgTx option list"
  mpc_commitTxOutList :: "TxOut list"
  mpc_totalRevealInValue :: int64
  mpc_scriptCtxList :: "inscriptionTxCtxData list"

fun mpcRevealLoop ::
    "env \<Rightarrow> Params \<Rightarrow> InscriptionRequest \<Rightarrow> nat list \<Rightarrow> mpcRevealState \<Rightarrow> error + mpcRevealState" where
  "mpcRevealLoop env network request [] st = Inr st"
| "mpcRevealLoop env network request (i # rest) st =
     (if i \<ge> length (mpc_scriptCtxList st) \<or> i \<ge> length (InscriptionDataList request) then Inl Panic
      else
     (let ctx = mpc_scriptCtxList st ! i;
          in0 = (NewTxIn \<lparr>Hash = zeroHash, Index = of_nat i\<rparr> [] [])\<lparr>Sequence := DefaultSequenceNum\<rparr>;
          revealTx0 = AddTxIn in0 (NewMsgTx DefaultTxVersion)
      in
      case AddrToPkScript env (RevealAddr (InscriptionDataList request ! i)) network of
        Inl e \<Rightarrow> Inl e
      | Inr scriptPubKey \<Rightarrow>
     (let revealOutValue = (if 0 <s RevealOutValue request then RevealOutValue request
                            else DefaultRevealOutValue);
          revealTx = AddTxOut (NewTxOut revealOutValue scriptPubKey) revealTx0;
          emptySignature = replicate 64 0;
          emptyControlBlockWitness = replicate 33 0;
          fakeWitness = [emptySignature, InscriptionScript ctx, emptyControlBlockWitness];
          revealFee = (SerializeSize revealTx + go_div (TxWitness_SerializeSize fakeWitness + 2 + 3) 4)
                        * RevealFeeRate request;
          revealInValue = revealOutValue + revealFee;
          ctx' = ctx\<lparr>RevealTxPrevOutput :=
                   Some \<lparr>Value = revealInValue, PkScript = CommitTxAddressPkScript ctx\<rparr>\<rparr>
      in mpcRevealLoop env network request rest
           \<lparr>mpc_revealTxList = (mpc_revealTxList st)[i := Some revealTx],
            mpc_commitTxOutList = mpc_commitTxOutList st @ [NewTxOut revealInValue (CommitTxAddressPkScript ctx)],
            mpc_totalRevealInValue = mpc_totalRevealInValue st + revealInValue,
            mpc_scriptCtxList = (mpc_scriptCtxList st)[i := ctx']\<rparr>)))"

text \<open>The loop "build commit tx" (lines 589 to 608).\<close>

fun mpcCommitInputsLoop ::
    "env \<Rightarrow> Params \<Rightarrow> PrevOutput list \<Rightarrow> MsgTx \<times> MultiPrevOutFetcher \<times> int64
       \<Rightarrow> error + MsgTx \<times> MultiPrevOutFetcher \<times> int64" where
  "mpcCommitInputsLoop env network [] st = Inr st"
| "mpcCommitInputsLoop env network (utxo # rest) (commitTx, prevOutFetcher, totalCommitInValue) =
     (case NewHashFromStr env (TxId utxo) of
        Inl e \<Rightarrow> Inl e
      | Inr txHash \<Rightarrow>
     (let outPoint = \<lparr>Hash = txHash, Index = VOut utxo\<rparr>;
          in0 = (NewTxIn outPoint [] [])\<lparr>Sequence := DefaultSequenceNum\<rparr>;
          commitTx' = AddTxIn in0 commitTx
      in
      case AddrToPkScript env (Address utxo) network of
        Inl e \<Rightarrow> Inl e
      | Inr pkScript \<Rightarrow>
          mpcCommitInputsLoop env network rest
            (commitTx', AddPrevOut outPoint (NewTxOut (Amount utxo) pkScript) prevOutFetcher,
             totalCommitInValue + Amount utxo)))"

text \<open>
  The change decision (lines 633 to 648): the commit transaction with its change output set
  or dropped, or the error. \<open>estimateTx\<close> is the signed copy.
\<close>

definition mpcChange :: "InscriptionRequest \<Rightarrow> MsgTx \<Rightarrow> MsgTx \<Rightarrow> int64 \<Rightarrow> int64 \<Rightarrow> error + MsgTx" where
  "mpcChange request commitTx estimateTx totalCommitInValue totalRevealInValue =
     (let commitFee = GetTxVirtualSize estimateTx * CommitFeeRate request;
          changeValue = totalCommitInValue - totalRevealInValue - commitFee;
          minChangeValue = (if 0 <s MinChangeValue request then MinChangeValue request
                            else DefaultMinChangeValue)
      in
      if minChangeValue \<le>s changeValue
      then Inr (commitTx\<lparr>TxOut := (TxOut commitTx)[length (TxOut commitTx) - 1 :=
                                      (last (TxOut commitTx))\<lparr>Value := changeValue\<rparr>]\<rparr>)
      else
       (let commitTx' = commitTx\<lparr>TxOut := butlast (TxOut commitTx)\<rparr>;
            estimateTx' = estimateTx\<lparr>TxOut := butlast (TxOut estimateTx)\<rparr>;
            feeWithoutChange = GetTxVirtualSize estimateTx' * CommitFeeRate request
        in if totalCommitInValue - totalRevealInValue - feeWithoutChange <s 0
           then Inl (Error ''insufficient balance'')
           else Inr commitTx'))"

text \<open>The loop "sign reveal tx" (lines 661 to 684).\<close>

record mpcSignState =
  sgn_revealTxList :: "MsgTx option list"
  sgn_revealTxFees :: "int64 list"
  sgn_commitAddrs :: "string list"

fun mpcSignRevealLoop ::
    "env \<Rightarrow> PrivKey \<Rightarrow> Hash \<Rightarrow> inscriptionTxCtxData list \<Rightarrow> nat list \<Rightarrow> mpcSignState
       \<Rightarrow> error + mpcSignState" where
  "mpcSignRevealLoop env randPrvKey commitTxHash scriptCtxList [] st = Inr st"
| "mpcSignRevealLoop env randPrvKey commitTxHash scriptCtxList (i # rest) st =
     (if i \<ge> length scriptCtxList \<or> i \<ge> length (sgn_revealTxList st) then Inl Panic
      else
     (let ctx = scriptCtxList ! i in
      case sgn_revealTxList st ! i of
        None \<Rightarrow> Inl Panic
      | Some revealTx0 \<Rightarrow>
     (if TxIn revealTx0 = [] then Inl Panic
      else
     (let revealTx1 = set_PrevHash revealTx0 commitTxHash;
          outPoint = \<lparr>Hash = commitTxHash, Index = of_nat i\<rparr>
      in
      case RevealTxPrevOutput ctx of
        None \<Rightarrow> Inl Panic
      | Some prevOut \<Rightarrow>
     (let revealTxPrevOutFetcher = AddPrevOut outPoint prevOut NewMultiPrevOutFetcher;
          txSigHashes = NewTxSigHashes revealTx1 revealTxPrevOutFetcher;
          tapLeaf = NewBaseTapLeaf (InscriptionScript ctx)
      in
      case RawTxInTapscriptSignature env revealTx1 txSigHashes 0 (Value prevOut) (PkScript prevOut)
             tapLeaf SigHashDefault randPrvKey of
        Inl e \<Rightarrow> Inl e
      | Inr signature \<Rightarrow>
     (let tx = set_Witness revealTx1 0 [signature, InscriptionScript ctx, ControlBlockWitness ctx] in
      case revealFeeLoop revealTxPrevOutFetcher tx [0..<length (TxIn tx)] (0, sgn_revealTxFees st) of
        Inl e \<Rightarrow> Inl e
      | Inr (revealTxFee, revealTxFees) \<Rightarrow>
          mpcSignRevealLoop env randPrvKey commitTxHash scriptCtxList rest
            \<lparr>sgn_revealTxList = (sgn_revealTxList st)[i := Some tx],
             sgn_revealTxFees = revealTxFees,
             sgn_commitAddrs = (sgn_commitAddrs st)[i := CommitTxAddress ctx]\<rparr>))))))"

text \<open>
  \<^verbatim>\<open>InscribeForMPCUnsigned\<close>. The estimate is signed on a deep copy (\<^verbatim>\<open>commitTx.Copy()\<close>), so
  \<^verbatim>\<open>commitTx\<close> itself stays unsigned. The parameter \<^verbatim>\<open>unsignedCommitHash\<close> is not read. On
  every failure the Go function returns \<^verbatim>\<open>nil\<close> and the error: \<open>Inl\<close>.
\<close>

definition InscribeForMPCUnsigned ::
    "env \<Rightarrow> InscriptionRequest \<Rightarrow> Params \<Rightarrow> Hash option \<Rightarrow> Hash option \<Rightarrow> error + InscribeForMPCRes" where
  "InscribeForMPCUnsigned env request network unsignedCommitHash signedCommitTxHash =
     (case CommitTxPrevOutputList request of
        [] \<Rightarrow> Inl Panic
      | prevOutput0 # _ \<Rightarrow>
     (case DecodeWIF env (PrivateKey prevOutput0) of
        Inl e \<Rightarrow> Inl e
      | Inr randPrvKey \<Rightarrow>
     (case buildInscriptionScriptCtxList env request network of
        Inl e \<Rightarrow> Inl e
      | Inr scriptCtxList0 \<Rightarrow>
     (case mpcRevealLoop env network request [0..<length scriptCtxList0]
             \<lparr>mpc_revealTxList = replicate (length scriptCtxList0) None,
              mpc_commitTxOutList = [],
              mpc_totalRevealInValue = 0,
              mpc_scriptCtxList = scriptCtxList0\<rparr> of
        Inl e \<Rightarrow> Inl e
      | Inr st \<Rightarrow>
     (case mpcCommitInputsLoop env network (CommitTxPrevOutputList request)
             (NewMsgTx DefaultTxVersion, NewMultiPrevOutFetcher, 0) of
        Inl e \<Rightarrow> Inl e
      | Inr (commitTx0, prevOutFetcher, totalCommitInValue) \<Rightarrow>
     (let commitTx1 = commitTx0\<lparr>TxOut := TxOut commitTx0 @ mpc_commitTxOutList st\<rparr> in
      case AddrToPkScript env (ChangeAddress request) network of
        Inl e \<Rightarrow> Inl e
      | Inr changePkScript \<Rightarrow>
     (let commitTx2 = AddTxOut (NewTxOut 0 changePkScript) commitTx1;
          estimateTx = commitTx2
      in
      case NewPrivateKey env of
        Inl e \<Rightarrow> Inl e
      | Inr fakePrvKey \<Rightarrow>
     (case Sign env estimateTx (replicate (length (TxIn estimateTx)) fakePrvKey) prevOutFetcher of
        Inl e \<Rightarrow> Inl e
      | Inr estimateTx1 \<Rightarrow>
     (case mpcChange request commitTx2 estimateTx1 totalCommitInValue (mpc_totalRevealInValue st) of
        Inl e \<Rightarrow> Inl e
      | Inr commitTx3 \<Rightarrow>
     (case calcSigHash env commitTx3 prevOutFetcher request of
        Inl e \<Rightarrow> Inl e
      | Inr (commitTx, sigHashList) \<Rightarrow>
     (let commitTxHash = (case signedCommitTxHash of None \<Rightarrow> TxHash env commitTx | Some h \<Rightarrow> h);
          scriptCtxList = mpc_scriptCtxList st
      in
      case mpcSignRevealLoop env randPrvKey commitTxHash scriptCtxList [0..<length scriptCtxList]
             \<lparr>sgn_revealTxList = mpc_revealTxList st,
              sgn_revealTxFees = [],
              sgn_commitAddrs = replicate (length scriptCtxList) []\<rparr> of
        Inl e \<Rightarrow> Inl e
      | Inr sg \<Rightarrow>
     (case commitFeeOf prevOutFetcher commitTx of
        Inl e \<Rightarrow> Inl e
      | Inr commitTxFee \<Rightarrow>
     (case GetTxHex env commitTx of
        Inl e \<Rightarrow> Inl e
      | Inr unsignedCommitTxHex \<Rightarrow>
     (case GetTxHexList env (sgn_revealTxList sg) of
        Inl e \<Rightarrow> Inl e
      | Inr revealTxHexList \<Rightarrow>
          Inr \<lparr>res_CommitTx = unsignedCommitTxHex,
               res_RevealTxs = revealTxHexList,
               res_CommitTxFee = commitTxFee,
               res_RevealTxFees = sgn_revealTxFees sg,
               res_CommitAddrs = sgn_commitAddrs sg,
               res_SigHashList = Some sigHashList\<rparr>))))))))))))))"

text \<open>
  The loop of \<^verbatim>\<open>InscribeForMPCSigned\<close> over the inputs of the deserialized commit
  transaction. Slicing a signature string that is too short panics, as does a missing
  signature.
\<close>

fun injectSignatures :: "env \<Rightarrow> string list \<Rightarrow> nat list \<Rightarrow> MsgTx \<Rightarrow> error + MsgTx" where
  "injectSignatures env signatures [] tx = Inr tx"
| "injectSignatures env signatures (i # rest) tx =
     (if i \<ge> length signatures \<or> length (signatures ! i) < 64 then Inl Panic
      else
     (case hex_DecodeString env (take 64 (signatures ! i)) of
        Inl e \<Rightarrow> Inl e
      | Inr rBytes \<Rightarrow>
     (if length (signatures ! i) < 128 then Inl Panic
      else
     (case hex_DecodeString env (take (128 - 64) (drop 64 (signatures ! i))) of
        Inl e \<Rightarrow> Inl e
      | Inr sBytes \<Rightarrow>
     (let r = SetByteSlice env rBytes;
          s = SetByteSlice env sBytes;
          signature = ecdsa_Serialize env r s @ [ucast SigHashAll];
          in0 = TxIn tx ! i
      in
      if length (Witness in0) = 0
      then (let pubKey = SignatureScript in0 in
            case Script (AddData pubKey (AddData signature NewScriptBuilder)) of
              Inl e \<Rightarrow> Inl e
            | Inr script \<Rightarrow> injectSignatures env signatures rest (set_SignatureScript tx i script))
      else (let pubKey = hd (Witness in0) in
            injectSignatures env signatures rest (set_Witness tx i [signature, pubKey])))))))"

definition InscribeForMPCSigned ::
    "env \<Rightarrow> InscriptionRequest \<Rightarrow> Params \<Rightarrow> string \<Rightarrow> string list \<Rightarrow> error + InscribeForMPCRes" where
  "InscribeForMPCSigned env request network commitTx signatures =
     (case hex_DecodeString env commitTx of
        Inl e \<Rightarrow> Inl e
      | Inr buf \<Rightarrow>
     (case tx_Deserialize env buf of
        Inl e \<Rightarrow> Inl e
      | Inr tx \<Rightarrow>
     (let unsignedCommitTxHash = TxHash env tx in
      case injectSignatures env signatures [0..<length (TxIn tx)] tx of
        Inl e \<Rightarrow> Inl e
      | Inr tx' \<Rightarrow>
     (let signedCommitTxHash = TxHash env tx' in
      case tx_Serialize env tx' of
        Inl e \<Rightarrow> Inl e
      | Inr buffer \<Rightarrow>
     (let signedCommitTxHex = hex_EncodeToString env buffer in
      case InscribeForMPCUnsigned env request network
             (Some unsignedCommitTxHash) (Some signedCommitTxHash) of
        Inl e \<Rightarrow> Inl e
      | Inr res \<Rightarrow> Inr (res\<lparr>res_SigHashList := None, res_CommitTx := signedCommitTxHex\<rparr>))))))"

section \<open>The specification's quantities\<close>

text \<open>
  The body split "into contiguous pieces of at most 520 bytes each, preserving order": piece
  \<open>k\<close> is the 520 bytes from offset \<open>520 * k\<close> (fewer at the end of the body).
\<close>

definition bodyChunks :: "bytes \<Rightarrow> bytes list" where
  "bodyChunks body =
     map (\<lambda>k. take maxChunkSize (drop (k * maxChunkSize) body))
       [0..<(length body + maxChunkSize - 1) div maxChunkSize]"




section \<open>An example environment\<close>

text \<open>
  Stand-ins of the right shapes for the libraries (keys of 32 bytes, signatures of 64 and 72
  bytes, pay-to-taproot scripts of 34 bytes, hexadecimal text), used to run the builder on
  concrete requests. Only the examples refer to them.
\<close>

definition pad :: "nat \<Rightarrow> bytes \<Rightarrow> bytes" where
  "pad n b = take n (b @ replicate n 0)"

definition hexdigit :: "nat \<Rightarrow> char" where
  "hexdigit n = ''0123456789abcdef'' ! n"

definition hex_encode :: "bytes \<Rightarrow> string" where
  "hex_encode bs = concat (map (\<lambda>b. [hexdigit (unat b div 16), hexdigit (unat b mod 16)]) bs)"

definition hexval :: "char \<Rightarrow> nat option" where
  "hexval c =
     (let n = (of_char c :: nat) in
      if 48 \<le> n \<and> n \<le> 57 then Some (n - 48)
      else if 97 \<le> n \<and> n \<le> 102 then Some (n - 87)
      else if 65 \<le> n \<and> n \<le> 70 then Some (n - 55)
      else None)"

fun hex_decode :: "string \<Rightarrow> error + bytes" where
  "hex_decode [] = Inr []"
| "hex_decode [c] = Inl (Error ''encoding/hex: odd length hex string'')"
| "hex_decode (c1 # c2 # rest) =
     (case (hexval c1, hexval c2) of
        (Some a, Some b) \<Rightarrow>
          (case hex_decode rest of Inl e \<Rightarrow> Inl e | Inr bs \<Rightarrow> Inr (of_nat (16 * a + b) # bs))
      | _ \<Rightarrow> Inl (Error ''encoding/hex: invalid byte''))"

definition example_tx_bytes :: "MsgTx \<Rightarrow> bytes" where
  "example_tx_bytes tx =
     [of_nat (length (TxIn tx)), of_nat (length (TxOut tx))]
       @ concat (map (\<lambda>i. hash_bytes (Hash (PreviousOutPoint i)) @ SignatureScript i @ concat (Witness i)) (TxIn tx))
       @ concat (map PkScript (TxOut tx))"

definition example_commit :: MsgTx where
  "example_commit =
     \<lparr>Version = 2,
      TxIn = [\<lparr>PreviousOutPoint = \<lparr>Hash = Hash32 (replicate 32 7), Index = 0\<rparr>,
               SignatureScript = [], Witness = [replicate 33 2], Sequence = 0xfffffffd\<rparr>,
              \<lparr>PreviousOutPoint = \<lparr>Hash = Hash32 (replicate 32 8), Index = 1\<rparr>,
               SignatureScript = replicate 33 3, Witness = [], Sequence = 0xfffffffd\<rparr>],
      TxOut = [\<lparr>Value = 700, PkScript = [0x51, 0x20] @ replicate 32 9\<rparr>],
      LockTime = 0\<rparr>"

definition example_env :: env where
  "example_env =
     \<lparr>DecodeWIF = (\<lambda>s. if s = [] then Inl (Error ''malformed private key'')
                        else Inr (PrivKey (pad 32 (bytes_of_string s)))),
      PubKeyOf = (\<lambda>k. case k of PrivKey b \<Rightarrow> PubKey b),
      SerializePubKey = (\<lambda>k. case k of PubKey b \<Rightarrow> pad 32 b),
      SerializeCompressed = (\<lambda>k. case k of PubKey b \<Rightarrow> 0x03 # pad 32 b),
      NewPrivateKey = Inr (PrivKey (replicate 32 1)),
      TapHash = (\<lambda>leaf. Hash32 (pad 32 (rev (tl_Script leaf)))),
      ComputeTaprootOutputKey = (\<lambda>k h. case k of PubKey b \<Rightarrow> PubKey (pad 32 (h @ b))),
      NewAddressTaproot = (\<lambda>b network. Inr (AddressTaproot ''bc'' b)),
      EncodeAddress = (\<lambda>a. case a of AddressTaproot hrp b \<Rightarrow> hrp @ ''1p'' @ hex_encode (take 4 b)),
      PayToAddrScript = (\<lambda>a. case a of AddressTaproot hrp b \<Rightarrow> Inr ([0x51, 0x20] @ b)),
      AddrToPkScript = (\<lambda>a network. if a = [] then Inl (Error ''decoded address is of unknown format'')
                                      else Inr ([0x51, 0x20] @ pad 32 (bytes_of_string a))),
      PayToPubKeyHashScript = (\<lambda>h. Inr ([0x76, 0xa9, 0x14] @ h @ [0x88, 0xac])),
      PayToWitnessPubKeyHashScript = (\<lambda>h. Inr ([0x00, 0x14] @ h)),
      Hash160 = pad 20,
      IsPayToTaproot = (\<lambda>s. length s = 34 \<and> take 2 s = [0x51, 0x20]),
      IsPayToPubKeyHash = (\<lambda>s. length s = 25 \<and> take 3 s = [0x76, 0xa9, 0x14]),
      IsPayToScriptHash = (\<lambda>s. length s = 23 \<and> take 2 s = [0xa9, 0x14]),
      NewHashFromStr = (\<lambda>s. if length s = 64 then Inr (Hash32 (pad 32 (bytes_of_string s)))
                             else Inl (Error ''max hash string length is 64 bytes'')),
      TxHash = (\<lambda>tx. Hash32 (pad 32 (example_tx_bytes tx))),
      CalcTapscriptSignaturehash = (\<lambda>h t tx idx f leaf. Inr (pad 32 (example_tx_bytes tx))),
      schnorr_Sign = (\<lambda>k m. case k of PrivKey b \<Rightarrow> Inr (Signature (pad 64 (b @ m)))),
      Serialize = (\<lambda>sg. case sg of Signature b \<Rightarrow> pad 64 b),
      TaprootWitnessSignature = (\<lambda>tx h idx amt pk t k. Inr [replicate 64 5]),
      SignatureScript_of = (\<lambda>tx idx pk t k c. Inr (pushData (replicate 72 5) @ pushData (replicate 33 2))),
      WitnessSignature = (\<lambda>tx h idx amt sc t k c. Inr [replicate 72 5, replicate 33 2]),
      RawTxInTapscriptSignature = (\<lambda>tx h idx amt pk leaf t k. Inr (replicate 64 6)),
      CalcTaprootSignatureHash = (\<lambda>h t tx idx f. Inr (pad 32 (example_tx_bytes tx))),
      CalcSignatureHash = (\<lambda>sc t tx idx. Inr (pad 32 (example_tx_bytes tx))),
      CalcWitnessSigHash = (\<lambda>sc h t tx idx amt. Inr (pad 32 (example_tx_bytes tx))),
      tx_Serialize = (\<lambda>tx. Inr (example_tx_bytes tx)),
      tx_Deserialize = (\<lambda>b. if b = [] then Inl (Error ''unexpected EOF'') else Inr example_commit),
      hex_EncodeToString = hex_encode,
      hex_DecodeString = hex_decode,
      SetByteSlice = ModNScalar,
      ecdsa_Serialize = (\<lambda>r s. case (r, s) of (ModNScalar rb, ModNScalar sb) \<Rightarrow>
                           [0x30, 0x44, 0x02, 0x20] @ rb @ [0x02, 0x20] @ sb)\<rparr>"

definition example_network :: Params where
  "example_network = Params ''mainnet''"

definition example_request :: InscriptionRequest where
  "example_request =
     \<lparr>CommitTxPrevOutputList =
        [\<lparr>TxId = replicate 64 CHR ''a'', VOut = 0, Amount = 100000, Address = ''funding'',
          PrivateKey = ''key-one'', PublicKey = ''02aa''\<rparr>],
      CommitFeeRate = 1,
      RevealFeeRate = 1,
      InscriptionDataList =
        [\<lparr>ContentType = ''text/plain;charset=utf-8'', Body = bytes_of_string ''Hello'',
          RevealAddr = ''destination''\<rparr>],
      RevealOutValue = 0,
      ChangeAddress = ''change'',
      MinChangeValue = 0\<rparr>"


text \<open>The leaf scripts and contexts that the envelope builder returns on the examples.\<close>

definition example_script :: bytes where
  "example_script =
     [0x20] @ pad 32 (bytes_of_string ''key-one'') @ [0xac, 0x00, 0x63]
       @ [0x03] @ bytes_of_string ''ord'' @ [0x01, 0x01]
       @ [0x18] @ bytes_of_string ''text/plain;charset=utf-8'' @ [0x00]
       @ [0x05] @ bytes_of_string ''Hello'' @ [0x68]"

definition example_ctx :: inscriptionTxCtxData where
  "example_ctx =
     \<lparr>ctx_PrivateKey = PrivKey (pad 32 (bytes_of_string ''key-one'')),
      InscriptionScript = example_script,
      CommitTxAddress = ''bc1p686f6c6c'',
      CommitTxAddressPkScript = [0x51, 0x20] @ take 32 (rev example_script),
      ControlBlockWitness = [0xc1] @ pad 32 (bytes_of_string ''key-one''),
      RevealTxPrevOutput = None\<rparr>"



















section \<open>The script builder and the body loop\<close>


lemma AddFullData_ok:
  "sb_err b = None \<Longrightarrow> AddFullData d b = b\<lparr>sb_script := sb_script b @ pushData d\<rparr>"
  by (simp add: AddFullData_def addData_def)

lemma AddFullData_err: "sb_err (AddFullData d b) = sb_err b"
  by (simp add: AddFullData_def addData_def)

lemma AddOp_None:
  "sb_err (AddOp opcode b) = None \<Longrightarrow>
     sb_err b = None \<and> sb_script (AddOp opcode b) = sb_script b @ [opcode]"
  by (auto simp: AddOp_def split: if_splits)

lemma AddData_None:
  "sb_err (AddData d b) = None \<Longrightarrow>
     sb_err b = None \<and> sb_script (AddData d b) = sb_script b @ pushData d"
  by (auto simp: AddData_def addData_def split: if_splits)

lemma chunk_slice:
  "i < length body \<Longrightarrow>
   take ((if i + maxChunkSize > length body then length body else i + maxChunkSize) - i) (drop i body)
     = take maxChunkSize (drop i body)"
  by auto

lemma addBodyChunks_from:
  "sb_err b = None \<Longrightarrow>
   addBodyChunks body (k * maxChunkSize) b =
     b\<lparr>sb_script := sb_script b @
        concat (map (\<lambda>j. pushData (take maxChunkSize (drop (j * maxChunkSize) body)))
                 [k..<(length body + maxChunkSize - 1) div maxChunkSize])\<rparr>"
proof (induction "(length body + maxChunkSize - 1) div maxChunkSize - k" arbitrary: k b)
  case 0
  then have "length body \<le> k * maxChunkSize"
    unfolding maxChunkSize_def by arith
  then show ?case using 0 by (simp add: addBodyChunks.simps Let_def)
next
  case (Suc m)
  then have lt: "k * maxChunkSize < length body"
    unfolding maxChunkSize_def by arith
  have k: "k < (length body + maxChunkSize - 1) div maxChunkSize" using Suc(2) by arith
  let ?b = "AddFullData (take maxChunkSize (drop (k * maxChunkSize) body)) b"
  have e: "sb_err ?b = None" using Suc(3) by (simp add: AddFullData_err)
  have m: "m = (length body + maxChunkSize - 1) div maxChunkSize - Suc k" using Suc(2) by arith
  have step: "addBodyChunks body (k * maxChunkSize) b = addBodyChunks body (Suc k * maxChunkSize) ?b"
    using lt chunk_slice [OF lt]
    by (subst addBodyChunks.simps) (simp add: Let_def add.commute)
  show ?case
    unfolding step Suc(1) [OF m e]
    using Suc(3) k by (simp add: AddFullData_ok upt_conv_Cons)
qed

lemma addBodyChunks_ok:
  "sb_err b = None \<Longrightarrow>
   addBodyChunks body 0 b = b\<lparr>sb_script := sb_script b @ concat (map pushData (bodyChunks body))\<rparr>"
  using addBodyChunks_from [of b body 0] by (simp add: bodyChunks_def comp_def)

lemma addBodyChunks_err: "sb_err (addBodyChunks body i b) = sb_err b"
proof (induction body i b rule: addBodyChunks.induct)
  case (1 body i b)
  show ?case
  proof (cases "i < length body")
    case True
    then show ?thesis
      using 1 [OF refl True refl]
      by (subst addBodyChunks.simps) (simp add: Let_def AddFullData_err)
  next
    case False
    then show ?thesis by (subst addBodyChunks.simps) (simp add: Let_def)
  qed
qed

lemma concat_take_chunks:
  "concat (map (\<lambda>k. take n (drop (k * n) xs)) [0..<m]) = take (m * n) xs"
proof (induction m)
  case 0
  show ?case by simp
next
  case (Suc m)
  have "take (Suc m * n) xs = take (m * n + n) xs" by (simp add: add.commute)
  also have "\<dots> = take (m * n) xs @ take n (drop (m * n) xs)" by (rule take_add)
  finally show ?case using Suc by simp
qed

lemma concat_bodyChunks: "concat (bodyChunks body) = body"
proof -
  have "length body \<le> (length body + maxChunkSize - 1) div maxChunkSize * maxChunkSize"
    unfolding maxChunkSize_def by arith
  then show ?thesis by (simp add: bodyChunks_def concat_take_chunks)
qed

lemma ceil_maxChunkSize:
  "(n + maxChunkSize - 1) div maxChunkSize
     = n div maxChunkSize + (if n mod maxChunkSize = 0 then 0 else 1)"
proof -
  define q r where "q = n div 520" and "r = n mod 520"
  have n: "n = 520 * q + r" and r: "r < 520" by (simp_all add: q_def r_def)
  have "(520 * q + r + 519) div 520 = q + (if r = 0 then 0 else 1)"
    by (rule div_nat_eqI) (use r in auto)
  then show ?thesis
    unfolding maxChunkSize_def q_def [symmetric] r_def [symmetric] using n by simp
qed

lemma length_bodyChunks:
  "map length (bodyChunks body) =
     replicate (length body div maxChunkSize) maxChunkSize
       @ (if length body mod maxChunkSize = 0 then [] else [length body mod maxChunkSize])"
proof -
  let ?n = "length body" and ?q = "length body div maxChunkSize"
  let ?f = "\<lambda>k. length (take maxChunkSize (drop (k * maxChunkSize) body))"
  have full: "map ?f [0..<?q] = replicate ?q maxChunkSize"
  proof (rule nth_equalityI)
    show "length (map ?f [0..<?q]) = length (replicate ?q maxChunkSize)" by simp
  next
    fix i assume "i < length (map ?f [0..<?q])"
    then have i: "i < ?q" by simp
    then have "Suc i * maxChunkSize \<le> ?q * maxChunkSize" by (simp del: mult_Suc)
    also have "\<dots> \<le> ?n" by simp
    finally have "maxChunkSize \<le> ?n - i * maxChunkSize" by simp
    then show "map ?f [0..<?q] ! i = replicate ?q maxChunkSize ! i"
      using i by simp
  qed
  have last: "?f ?q = ?n mod maxChunkSize"
    by (simp add: maxChunkSize_def minus_div_mult_eq_mod)
  have "map length (bodyChunks body)
          = map ?f [0..<?q + (if ?n mod maxChunkSize = 0 then 0 else 1)]"
    unfolding bodyChunks_def ceil_maxChunkSize by (simp add: comp_def)
  then show ?thesis
    using full last by (simp del: length_take length_drop)
qed

section \<open>The envelope\<close>

text \<open>What a successful run of the envelope builder went through.\<close>


lemma newInscriptionTxCtxData_Inr:
  assumes "newInscriptionTxCtxData env network req i = Inr ctx"
  obtains p0 rest where
    "CommitTxPrevOutputList req = p0 # rest"
    "DecodeWIF env (PrivateKey p0) = Inr (ctx_PrivateKey ctx)"
    "i < length (InscriptionDataList req)"
    "InscriptionScript ctx =
       pushData (SerializePubKey env (PubKeyOf env (ctx_PrivateKey ctx)))
         @ [OP_CHECKSIG, OP_FALSE, OP_IF]
         @ pushData (bytes_of_string OrdPrefix)
         @ [OP_DATA_1, OP_DATA_1]
         @ pushData (bytes_of_string (ContentType (InscriptionDataList req ! i)))
         @ [OP_0]
         @ concat (map pushData (bodyChunks (Body (InscriptionDataList req ! i))))
         @ [OP_ENDIF]"
    "ToBytes env (ToControlBlock env
        \<lparr>TapLeaf = NewBaseTapLeaf (SerializePubKey env (PubKeyOf env (ctx_PrivateKey ctx))),
         RootNode = NewBaseTapLeaf (InscriptionScript ctx), InclusionProof = []\<rparr>
        (PubKeyOf env (ctx_PrivateKey ctx))) = Inr (ControlBlockWitness ctx)"
    "RevealTxPrevOutput ctx = None"
proof -
  from assms obtain p0 rest where p: "CommitTxPrevOutputList req = p0 # rest"
    by (cases "CommitTxPrevOutputList req") (simp_all add: newInscriptionTxCtxData_def)
  from assms p obtain k where k: "DecodeWIF env (PrivateKey p0) = Inr k"
    by (cases "DecodeWIF env (PrivateKey p0)") (simp_all add: newInscriptionTxCtxData_def)
  from assms p k have i: "i < length (InscriptionDataList req)"
    by (simp add: newInscriptionTxCtxData_def split: if_splits)
  define d where "d = InscriptionDataList req ! i"
  define b8 where "b8 = AddData (bytes_of_string (ContentType d))
     (AddOp OP_DATA_1 (AddOp OP_DATA_1 (AddData (bytes_of_string OrdPrefix)
       (AddOp OP_IF (AddOp OP_FALSE (AddOp OP_CHECKSIG
          (AddData (SerializePubKey env (PubKeyOf env k)) NewScriptBuilder)))))))"
  define fin where "fin = addBodyChunks (Body d) 0 (AddOp OP_0 b8)"
  from assms p k i obtain script where s: "Script fin = Inr script"
    by (cases "Script fin") (simp_all add: newInscriptionTxCtxData_def Let_def fin_def b8_def d_def)
  from s have e: "sb_err fin = None" and sc: "script = sb_script fin"
    by (simp_all add: Script_def split: option.splits)
  from e have e9: "sb_err (AddOp OP_0 b8) = None" by (simp add: fin_def addBodyChunks_err)
  have fin_eq: "sb_script fin = sb_script (AddOp OP_0 b8) @ concat (map pushData (bodyChunks (Body d)))"
    unfolding fin_def by (simp add: addBodyChunks_ok [OF e9])
  have head: "sb_script (AddOp OP_0 b8) =
       pushData (SerializePubKey env (PubKeyOf env k))
         @ [OP_CHECKSIG, OP_FALSE, OP_IF]
         @ pushData (bytes_of_string OrdPrefix)
         @ [OP_DATA_1, OP_DATA_1]
         @ pushData (bytes_of_string (ContentType d))
         @ [OP_0]"
    using e9 unfolding b8_def
    by (auto dest!: AddOp_None AddData_None simp: NewScriptBuilder_def)
  from assms p k i s have ctx:
    "ctx_PrivateKey ctx = k" "InscriptionScript ctx = script @ [OP_ENDIF]"
    "RevealTxPrevOutput ctx = None"
    "ToBytes env (ToControlBlock env
        \<lparr>TapLeaf = NewBaseTapLeaf (SerializePubKey env (PubKeyOf env k)),
         RootNode = NewBaseTapLeaf (script @ [OP_ENDIF]), InclusionProof = []\<rparr>
        (PubKeyOf env k)) = Inr (ControlBlockWitness ctx)"
    by (auto simp: newInscriptionTxCtxData_def Let_def fin_def b8_def d_def split: sum.splits)
  show thesis
    by (rule that [OF p]) (use k i ctx sc fin_eq head in \<open>simp_all add: d_def\<close>)
qed

lemma example_ctx_run:
  "newInscriptionTxCtxData example_env example_network example_request 0 = Inr example_ctx"
  by code_simp

text \<open>
  Claim C3. Whenever the envelope builder returns a context, its leaf script is, in order: the
  push of the x-only public key, \<^verbatim>\<open>OP_CHECKSIG\<close>, \<^verbatim>\<open>OP_FALSE\<close>, \<^verbatim>\<open>OP_IF\<close>, the push of
  \<^verbatim>\<open>"ord"\<close>, \<^verbatim>\<open>OP_DATA_1\<close> twice, the push of the content type, \<^verbatim>\<open>OP_0\<close>, one canonical
  push per piece of the body, and \<^verbatim>\<open>OP_ENDIF\<close>. The pieces are contiguous and in order (their
  concatenation is the body); all are 520 bytes long except a shorter last one when the size
  is not a multiple of 520. So 520 bytes give one piece, 521 give pieces of 520 and 1, and an
  empty body gives none.
\<close>

theorem leaf_script_layout:
  assumes "newInscriptionTxCtxData env network req i = Inr ctx"
  shows "InscriptionScript ctx =
           pushData (SerializePubKey env (PubKeyOf env (ctx_PrivateKey ctx)))
             @ [OP_CHECKSIG, OP_FALSE, OP_IF]
             @ pushData (bytes_of_string ''ord'')
             @ [OP_DATA_1, OP_DATA_1]
             @ pushData (bytes_of_string (ContentType (InscriptionDataList req ! i)))
             @ [OP_0]
             @ concat (map pushData (bodyChunks (Body (InscriptionDataList req ! i))))
             @ [OP_ENDIF]
         \<and> concat (bodyChunks (Body (InscriptionDataList req ! i))) = Body (InscriptionDataList req ! i)
         \<and> map length (bodyChunks (Body (InscriptionDataList req ! i))) =
             replicate (length (Body (InscriptionDataList req ! i)) div 520) 520
               @ (if length (Body (InscriptionDataList req ! i)) mod 520 = 0 then []
                  else [length (Body (InscriptionDataList req ! i)) mod 520])"
proof -
  from assms show ?thesis
    by (rule newInscriptionTxCtxData_Inr)
       (use concat_bodyChunks length_bodyChunks in \<open>simp add: OrdPrefix_def maxChunkSize_def\<close>)
qed

theorem leaf_script_layout_witness:
  "newInscriptionTxCtxData example_env example_network example_request 0 = Inr example_ctx
   \<and> InscriptionScript example_ctx =
           pushData (SerializePubKey example_env (PubKeyOf example_env (ctx_PrivateKey example_ctx)))
             @ [OP_CHECKSIG, OP_FALSE, OP_IF]
             @ pushData (bytes_of_string ''ord'')
             @ [OP_DATA_1, OP_DATA_1]
             @ pushData (bytes_of_string (ContentType (InscriptionDataList example_request ! 0)))
             @ [OP_0]
             @ concat (map pushData (bodyChunks (Body (InscriptionDataList example_request ! 0))))
             @ [OP_ENDIF]
   \<and> map length (bodyChunks (Body (InscriptionDataList example_request ! 0))) = [5]"
proof -
  have "length (Body (InscriptionDataList example_request ! 0)) = 5"
    by (simp add: example_request_def bytes_of_string_def)
  then show ?thesis
    using leaf_script_layout [OF example_ctx_run] example_ctx_run by simp
qed







text \<open>
  Claim C9. The control block of a context is one byte, the leaf version \<^verbatim>\<open>0xc0\<close> with the
  parity of the taproot output key in its lowest bit, followed by the x-only serialization of
  the internal public key and nothing else: 33 bytes when the x-only key has its 32 bytes.
  The output key is the internal key tweaked by the hash of the leaf script.
\<close>

theorem control_block_layout:
  assumes "newInscriptionTxCtxData env network req i = Inr ctx"
      and "length (SerializePubKey env (PubKeyOf env (ctx_PrivateKey ctx))) = 32"
  shows "ControlBlockWitness ctx =
           (if (case SerializeCompressed env
                       (ComputeTaprootOutputKey env (PubKeyOf env (ctx_PrivateKey ctx))
                          (hash_bytes (TapHash env (NewBaseTapLeaf (InscriptionScript ctx))))) of
                  [] \<Rightarrow> False
                | b # _ \<Rightarrow> b = PubKeyFormatCompressedOdd)
            then 0xc1 else 0xc0)
           # SerializePubKey env (PubKeyOf env (ctx_PrivateKey ctx))
         \<and> length (ControlBlockWitness ctx) = 33"
proof -
  from assms(1) have
    "ToBytes env (ToControlBlock env
        \<lparr>TapLeaf = NewBaseTapLeaf (SerializePubKey env (PubKeyOf env (ctx_PrivateKey ctx))),
         RootNode = NewBaseTapLeaf (InscriptionScript ctx), InclusionProof = []\<rparr>
        (PubKeyOf env (ctx_PrivateKey ctx))) = Inr (ControlBlockWitness ctx)"
    by (rule newInscriptionTxCtxData_Inr)
  then have "ControlBlockWitness ctx =
           (if (case SerializeCompressed env
                       (ComputeTaprootOutputKey env (PubKeyOf env (ctx_PrivateKey ctx))
                          (hash_bytes (TapHash env (NewBaseTapLeaf (InscriptionScript ctx))))) of
                  [] \<Rightarrow> False
                | b # _ \<Rightarrow> b = PubKeyFormatCompressedOdd)
            then 0xc1 else 0xc0)
           # SerializePubKey env (PubKeyOf env (ctx_PrivateKey ctx))"
    by (auto simp: ToBytes_def ToControlBlock_def NewBaseTapLeaf_def BaseLeafVersion_def Let_def)
  then show ?thesis
    using assms(2) by simp
qed

theorem control_block_layout_witness:
  "newInscriptionTxCtxData example_env example_network example_request 0 = Inr example_ctx
   \<and> length (SerializePubKey example_env (PubKeyOf example_env (ctx_PrivateKey example_ctx))) = 32
   \<and> ControlBlockWitness example_ctx
       = 0xc1 # SerializePubKey example_env (PubKeyOf example_env (ctx_PrivateKey example_ctx))
   \<and> length (ControlBlockWitness example_ctx) = 33"
proof -
  have l: "length (SerializePubKey example_env (PubKeyOf example_env (ctx_PrivateKey example_ctx))) = 32"
    by code_simp
  have "ControlBlockWitness example_ctx
          = 0xc1 # SerializePubKey example_env (PubKeyOf example_env (ctx_PrivateKey example_ctx))"
    by code_simp
  then show ?thesis
    using control_block_layout [OF example_ctx_run l] example_ctx_run l by simp
qed

section \<open>The reveal pre-sizer\<close>






















section \<open>The commit builder\<close>





















end
